theory Spec2Isabelle
  imports Complex_Main
begin

section \<open>JavaScript strings\<close>

text \<open>
  A JavaScript string is modelled as a \<^typ>\<open>string\<close>: the list of its code units, restricted
  to the range 0x00..0xFF. The streaming loop only ever compares code units with the
  newline and with white space, so nothing below depends on the width of a code unit.
\<close>

definition newline :: char where
  "newline = CHR 0x0A"

text \<open>White space and line terminators of ECMAScript that fit in one byte: what
  \<^verbatim>\<open>String.prototype.trim\<close> removes.\<close>

definition is_ws :: "char \<Rightarrow> bool" where
  "is_ws c = (c = CHR 0x09 \<or> c = CHR 0x0A \<or> c = CHR 0x0B \<or> c = CHR 0x0C \<or> c = CHR 0x0D
              \<or> c = CHR 0x20 \<or> c = CHR 0xA0)"

definition trim :: "string \<Rightarrow> string" where
  "trim s = rev (dropWhile is_ws (rev (dropWhile is_ws s)))"

text \<open>\<^verbatim>\<open>s.split('\n')\<close>: the pieces between newlines, in order; \<open>cur\<close> is the piece being
  read. The result is never empty: the empty string splits into one empty piece.\<close>

fun split_from :: "string \<Rightarrow> string \<Rightarrow> string list" where
  "split_from cur [] = [cur]"
| "split_from cur (c # cs) =
     (if c = newline then cur # split_from [] cs else split_from (cur @ [c]) cs)"

definition split_nl :: "string \<Rightarrow> string list" where
  "split_nl s = split_from [] s"

text \<open>\<^verbatim>\<open>lines.pop()\<close>: removes the last element and returns it, \<^verbatim>\<open>undefined\<close> (here \<open>None\<close>)
  on an empty array.\<close>

definition pop :: "'a list \<Rightarrow> 'a list \<times> 'a option" where
  "pop xs = (if xs = [] then ([], None) else (butlast xs, Some (last xs)))"

text \<open>\<^verbatim>\<open>x || ''\<close> for a string or \<^verbatim>\<open>undefined\<close>: the empty string and \<^verbatim>\<open>undefined\<close> are falsy.\<close>

definition or_empty :: "string option \<Rightarrow> string" where
  "or_empty x = (case x of None \<Rightarrow> [] | Some s \<Rightarrow> if s = [] then [] else s)"

section \<open>JavaScript values\<close>

text \<open>
  The values \<^verbatim>\<open>JSON.parse\<close> can return, and \<^verbatim>\<open>undefined\<close>. A number is the exact value of
  an IEEE double: a rational, or an infinity (\<^verbatim>\<open>JSON.parse('1e999')\<close> is \<^verbatim>\<open>Infinity\<close>).
  An object is the list of its own properties in insertion order, with distinct keys.
\<close>

datatype jsnumber = Finite rat | Infinity bool | NaN

datatype jsval =
    JUndefined
  | JNull
  | JBool bool
  | JNum jsnumber
  | JStr string
  | JArr "jsval list"
  | JObj "(string \<times> jsval) list"

type_synonym jsobject = "(string \<times> jsval) list"

text \<open>Reading a property of an object: \<^verbatim>\<open>undefined\<close> when the object has no such property.
  The names read below (\<^verbatim>\<open>date\<close>, \<^verbatim>\<open>description\<close>, \<^verbatim>\<open>amount\<close>, \<^verbatim>\<open>type\<close>, \<^verbatim>\<open>id\<close>, \<^verbatim>\<open>category\<close>) are not
  properties of \<^verbatim>\<open>Object.prototype\<close>, so only own properties matter.\<close>

definition get_prop :: "jsobject \<Rightarrow> string \<Rightarrow> jsval" where
  "get_prop obj k = (case map_of obj k of None \<Rightarrow> JUndefined | Some v \<Rightarrow> v)"

text \<open>Writing a property: an existing key keeps its place, a new key goes last.\<close>

fun set_prop :: "jsobject \<Rightarrow> string \<Rightarrow> jsval \<Rightarrow> jsobject" where
  "set_prop [] k v = [(k, v)]"
| "set_prop ((k', v') # obj) k v =
     (if k' = k then (k, v) # obj else (k', v') # set_prop obj k v)"

text \<open>ToBoolean.\<close>

fun truthy :: "jsval \<Rightarrow> bool" where
  "truthy JUndefined = False"
| "truthy JNull = False"
| "truthy (JBool b) = b"
| "truthy (JNum (Finite r)) = (r \<noteq> 0)"
| "truthy (JNum (Infinity _)) = True"
| "truthy (JNum NaN) = False"
| "truthy (JStr s) = (s \<noteq> [])"
| "truthy (JArr _) = True"
| "truthy (JObj _) = True"

text \<open>\<^verbatim>\<open>typeof v === 'number'\<close>.\<close>

fun is_number :: "jsval \<Rightarrow> bool" where
  "is_number (JNum _) = True"
| "is_number _ = False"

section \<open>Number formatting in template literals\<close>

text \<open>\<^verbatim>\<open>`${n}`\<close> for an integer \<open>n\<close>: its decimal digits, with a minus sign when negative.\<close>

definition digit_char :: "nat \<Rightarrow> char" where
  "digit_char d = ''0123456789'' ! (d mod 10)"

fun show_nat :: "nat \<Rightarrow> string" where
  "show_nat n = (if n < 10 then [digit_char n] else show_nat (n div 10) @ [digit_char (n mod 10)])"

declare show_nat.simps [simp del]

text \<open>The same digits for a non-negative integer of type \<^typ>\<open>int\<close>, as a clock reading is.\<close>

function show_digits :: "int \<Rightarrow> string" where
  "show_digits i =
     (if i < 10 then [digit_char (nat i)]
      else show_digits (i div 10) @ [digit_char (nat (i mod 10))])"
  by pat_completeness auto
termination
  by (relation "measure nat") auto

declare show_digits.simps [simp del]

definition show_int :: "int \<Rightarrow> string" where
  "show_int i = (if i < 0 then CHR ''-'' # show_digits (- i) else show_digits i)"

section \<open>The record decoder\<close>

text \<open>
  The guard of \<^verbatim>\<open>handleFileChange\<close> on the parsed line:
  \<^verbatim>\<open>txData.date && txData.description && typeof txData.amount === 'number' && txData.type\<close>.
\<close>

definition guard :: "jsobject \<Rightarrow> bool" where
  "guard txData =
     (truthy (get_prop txData ''date'') \<and> truthy (get_prop txData ''description'')
      \<and> is_number (get_prop txData ''amount'') \<and> truthy (get_prop txData ''type''))"

text \<open>
  Why a line gives no transaction: it is blank (\<^verbatim>\<open>line.trim()\<close> is falsy), \<^verbatim>\<open>JSON.parse\<close>
  throws a SyntaxError, reading \<^verbatim>\<open>txData.date\<close> throws a TypeError (\<^verbatim>\<open>txData\<close> is \<^verbatim>\<open>null\<close>),
  or the guard is false. The two exceptions are caught by the \<^verbatim>\<open>catch\<close> around the line.
\<close>

datatype reject = Blank | SyntaxError | TypeError | GuardFailed

text \<open>
  The guard on any parsed value. A number, a string, a boolean or an array has no property
  named \<^verbatim>\<open>date\<close>, so the guard is false at its first conjunct.
\<close>

fun check_record :: "jsval \<Rightarrow> reject + jsobject" where
  "check_record (JObj txData) = (if guard txData then Inr txData else Inl GuardFailed)"
| "check_record JNull = Inl TypeError"
| "check_record _ = Inl GuardFailed"

text \<open>\<^verbatim>\<open>JSON.parse\<close> is a built-in of the language, not code of the repository: the decoder
  takes it as the parameter \<open>parse\<close>, \<open>None\<close> standing for a thrown SyntaxError.\<close>

definition decode_line :: "(string \<Rightarrow> jsval option) \<Rightarrow> string \<Rightarrow> reject + jsobject" where
  "decode_line parse line =
     (if trim line = [] then Inl Blank
      else case parse line of None \<Rightarrow> Inl SyntaxError | Some txData \<Rightarrow> check_record txData)"

section \<open>Identity assignment\<close>

text \<open>
  \<^verbatim>\<open>{...txData, id: `${Date.now()}-${transactionCount++}`, category: 'Uncategorized'}\<close>:
  every own property of the parsed record, then \<^verbatim>\<open>id\<close> and \<^verbatim>\<open>category\<close> written over it.
  \<open>t\<close> is the clock reading and \<open>n\<close> the counter before its increment.
\<close>

definition make_id :: "int \<Rightarrow> nat \<Rightarrow> string" where
  "make_id t n = show_int t @ ''-'' @ show_nat n"

definition make_tx :: "jsobject \<Rightarrow> int \<Rightarrow> nat \<Rightarrow> jsobject" where
  "make_tx txData t n =
     set_prop (set_prop txData ''id'' (JStr (make_id t n))) ''category'' (JStr ''Uncategorized'')"

section \<open>Application state\<close>

text \<open>\<^verbatim>\<open>type AppState\<close>; the first revision has no \<^verbatim>\<open>'init'\<close> state and never enters it.\<close>

datatype app_state = Init | Upload | Analyzing | Error

record category =
  cat_id :: string
  cat_name :: string

text \<open>The state variables of \<^verbatim>\<open>App\<close> that the handlers below read or write. A transaction is
  the object the handler built, whatever \<^verbatim>\<open>interface Transaction\<close> declares.\<close>

record app =
  appState :: app_state
  transactions :: "jsobject list"
  categories :: "category list"
  errorMessage :: string
  isStreaming :: bool
  editingCategoryId :: "string option"
  editingCategoryName :: string

section \<open>The streaming loop (first revision of \<^verbatim>\<open>handleFileChange\<close>)\<close>

text \<open>
  The inner loop over the complete lines of one chunk. \<^verbatim>\<open>Date.now()\<close> is read once for
  each accepted record, just before the counter is incremented, so the session's clock is
  the function \<open>now\<close> from the number of earlier readings to the reading; any function is
  allowed, the clock need not advance. The counter is a JavaScript number, exact up to
  \<^verbatim>\<open>2^53\<close>, and is modelled as a natural number.
\<close>

fun process_lines ::
  "(string \<Rightarrow> jsval option) \<Rightarrow> (nat \<Rightarrow> int) \<Rightarrow> string list \<Rightarrow> jsobject list \<times> nat
    \<Rightarrow> jsobject list \<times> nat" where
  "process_lines parse now [] (newTxs, count) = (newTxs, count)"
| "process_lines parse now (line # lines) (newTxs, count) =
     process_lines parse now lines
       (case decode_line parse line of
          Inl _ \<Rightarrow> (newTxs, count)
        | Inr txData \<Rightarrow>
            (newTxs @ [make_tx txData (now count) count],
             Suc count))"

text \<open>The local variables of the loop, and the application state it updates.\<close>

record ingest =
  buffer :: string
  transactionCount :: nat
  ui :: app

text \<open>The body of \<^verbatim>\<open>for await (const chunk of stream)\<close>.\<close>

definition on_chunk ::
  "(string \<Rightarrow> jsval option) \<Rightarrow> (nat \<Rightarrow> int) \<Rightarrow> ingest \<Rightarrow> string \<Rightarrow> ingest" where
  "on_chunk parse now st chunk =
     (let buffer1 = buffer st @ chunk;
          (lines, popped) = pop (split_nl buffer1);
          (newTxs, count') = process_lines parse now lines ([], transactionCount st)
      in \<lparr> buffer = or_empty popped,
           transactionCount = count',
           ui = (if newTxs \<noteq> []
                 then (ui st)\<lparr>transactions := transactions (ui st) @ newTxs\<rparr>
                 else ui st) \<rparr>)"

text \<open>After the loop: \<^verbatim>\<open>if (buffer.trim()) { try { ... } catch (e) { ... } }\<close>.\<close>

definition flush :: "(string \<Rightarrow> jsval option) \<Rightarrow> (nat \<Rightarrow> int) \<Rightarrow> ingest \<Rightarrow> ingest" where
  "flush parse now st =
     (case decode_line parse (buffer st) of
        Inl _ \<Rightarrow> st
      | Inr txData \<Rightarrow>
          st\<lparr> transactionCount := Suc (transactionCount st),
               ui := (ui st)\<lparr>transactions := transactions (ui st) @
                         [make_tx txData (now (transactionCount st)) (transactionCount st)]\<rparr> \<rparr>)"

text \<open>
  What the external collaborator does: it delivers the chunks of \<open>chunks\<close> in order, the text
  of each being a string, and then either ends the stream (\<open>thrown = None\<close>) or throws. A
  failure of the submission itself (no API key, a rejected request) is a response with no
  chunk and a thrown value.
\<close>

datatype thrown_value = ErrorObject string | OtherValue

record response =
  chunks :: "string list"
  thrown :: "thrown_value option"

record upload_file =
  file_name :: string
  file_type :: string

text \<open>\<^verbatim>\<open>`Failed to analyze statement. ${error instanceof Error ? error.message : 'Unknown error.'}`\<close>\<close>

definition failure_message :: "thrown_value \<Rightarrow> string" where
  "failure_message e =
     ''Failed to analyze statement. '' @
       (case e of ErrorObject message \<Rightarrow> message | OtherValue \<Rightarrow> ''Unknown error.'')"

text \<open>
  The handler, from the file chosen to the state when its promise settles. The timer that
  leaves the error state three seconds after a wrong file is a later event and not part of
  it.
\<close>

definition handleFileChange ::
  "(string \<Rightarrow> jsval option) \<Rightarrow> (nat \<Rightarrow> int) \<Rightarrow> upload_file option \<Rightarrow> response \<Rightarrow> app \<Rightarrow> app" where
  "handleFileChange parse now f resp a =
     (if (case f of None \<Rightarrow> False | Some f' \<Rightarrow> file_type f' = ''application/pdf'') then
        let a1 = a\<lparr>appState := Analyzing, transactions := [], errorMessage := [],
                    isStreaming := True\<rparr>;
            st = foldl (on_chunk parse now) \<lparr>buffer = [], transactionCount = 0, ui = a1\<rparr>
                   (chunks resp)
        in (case thrown resp of
              None \<Rightarrow> (ui (flush parse now st))\<lparr>isStreaming := False\<rparr>
            | Some e \<Rightarrow>
                (ui st)\<lparr>errorMessage := failure_message e, appState := Error,
                         isStreaming := False\<rparr>)
      else a\<lparr>errorMessage := ''Please upload a valid PDF file.'', appState := Error\<rparr>)"

section \<open>The streaming loop (third revision of \<^verbatim>\<open>handleFileChange\<close>)\<close>

text \<open>
  The third revision looks up a saved note for each accepted record:
  \<^verbatim>\<open>localStorage.getItem(createTransactionKey(txData))\<close>. The key is built from
  \<^verbatim>\<open>tx.description.toLowerCase()\<close> and \<^verbatim>\<open>`${tx.amount}`\<close>, so the call throws a TypeError inside
  the \<^verbatim>\<open>try\<close> when the description is not a string, and otherwise reads the browser's
  storage. The whole lookup is the parameter \<open>lookup_note\<close>: \<open>Inl\<close> when it throws, else the
  saved note or \<^verbatim>\<open>null\<close>.
\<close>

definition make_tx_rev3 :: "jsobject \<Rightarrow> int \<Rightarrow> nat \<Rightarrow> string option \<Rightarrow> jsobject" where
  "make_tx_rev3 txData t n savedNote =
     set_prop (make_tx txData t n) ''notes''
       (case savedNote of None \<Rightarrow> JUndefined | Some note \<Rightarrow> JStr note)"

fun process_lines_rev3 ::
  "(string \<Rightarrow> jsval option) \<Rightarrow> (nat \<Rightarrow> int) \<Rightarrow> (jsobject \<Rightarrow> reject + string option)
    \<Rightarrow> string list \<Rightarrow> jsobject list \<times> nat \<Rightarrow> jsobject list \<times> nat" where
  "process_lines_rev3 parse now lookup_note [] (newTxs, count) =
     (newTxs, count)"
| "process_lines_rev3 parse now lookup_note (line # lines) (newTxs, count) =
     process_lines_rev3 parse now lookup_note lines
       (case decode_line parse line of
          Inl _ \<Rightarrow> (newTxs, count)
        | Inr txData \<Rightarrow>
            (case lookup_note txData of
               Inl _ \<Rightarrow> (newTxs, count)
             | Inr savedNote \<Rightarrow>
                 (newTxs @
                    [make_tx_rev3 txData (now count) count savedNote],
                  Suc count)))"

definition on_chunk_rev3 ::
  "(string \<Rightarrow> jsval option) \<Rightarrow> (nat \<Rightarrow> int) \<Rightarrow> (jsobject \<Rightarrow> reject + string option)
    \<Rightarrow> ingest \<Rightarrow> string \<Rightarrow> ingest" where
  "on_chunk_rev3 parse now lookup_note st chunk =
     (let buffer1 = buffer st @ chunk;
          (lines, popped) = pop (split_nl buffer1);
          (newTxs, count') =
             process_lines_rev3 parse now lookup_note lines ([], transactionCount st)
      in \<lparr> buffer = or_empty popped,
           transactionCount = count',
           ui = (if newTxs \<noteq> []
                 then (ui st)\<lparr>transactions := transactions (ui st) @ newTxs\<rparr>
                 else ui st) \<rparr>)"

text \<open>\<^verbatim>\<open>s.toLowerCase()\<close> on code units up to 0xFF: A-Z and the capital letters of Latin-1.\<close>

definition lower_char :: "char \<Rightarrow> char" where
  "lower_char c =
     (let n = (of_char c :: nat)
      in if (65 \<le> n \<and> n \<le> 90) \<or> (192 \<le> n \<and> n \<le> 222 \<and> n \<noteq> 215)
         then char_of (n + 32) else c)"

definition toLowerCase :: "string \<Rightarrow> string" where
  "toLowerCase s = map lower_char s"

text \<open>\<^verbatim>\<open>s.endsWith(suffix)\<close>.\<close>

definition endsWith :: "string \<Rightarrow> string \<Rightarrow> bool" where
  "endsWith s suffix = (drop (length s - length suffix) s = suffix \<and> length suffix \<le> length s)"

text \<open>
  The third revision returns at once when no file is chosen, accepts a file by its type or
  by its name, reports a wrong file without leaving the current screen, and has no code
  after the loop: the text left in \<^verbatim>\<open>buffer\<close> when the stream ends is not decoded.
\<close>

definition handleFileChange_rev3 ::
  "(string \<Rightarrow> jsval option) \<Rightarrow> (nat \<Rightarrow> int) \<Rightarrow> (jsobject \<Rightarrow> reject + string option)
    \<Rightarrow> upload_file option \<Rightarrow> response \<Rightarrow> app \<Rightarrow> app" where
  "handleFileChange_rev3 parse now lookup_note f resp a =
     (case f of
        None \<Rightarrow> a
      | Some f' \<Rightarrow>
          if file_type f' \<noteq> ''application/pdf''
             \<and> \<not> endsWith (toLowerCase (file_name f')) ''.pdf''
          then a\<lparr>errorMessage := ''Please upload a valid PDF file.''\<rparr>
          else
            let a1 = a\<lparr>appState := Analyzing, transactions := [], errorMessage := [],
                        isStreaming := True\<rparr>;
                st = foldl (on_chunk_rev3 parse now lookup_note)
                       \<lparr>buffer = [], transactionCount = 0, ui = a1\<rparr> (chunks resp)
            in (case thrown resp of
                  None \<Rightarrow> (ui st)\<lparr>isStreaming := False\<rparr>
                | Some e \<Rightarrow>
                    (ui st)\<lparr>errorMessage := failure_message e, appState := Error,
                             isStreaming := False\<rparr>))"

section \<open>Category reconciliation\<close>

text \<open>\<^verbatim>\<open>categories.find(c => c.id === id)\<close>.\<close>

definition find_category :: "category list \<Rightarrow> string \<Rightarrow> category option" where
  "find_category cats cid = find (\<lambda>c. cat_id c = cid) cats"

text \<open>
  \<^verbatim>\<open>t.category === name ? { ...t, category: new } : t\<close> over the collection. The right-hand
  side of \<^verbatim>\<open>===\<close> is a string or \<^verbatim>\<open>undefined\<close>, for which strict equality is equality of
  values.
\<close>

definition recategorize :: "jsval \<Rightarrow> string \<Rightarrow> jsobject list \<Rightarrow> jsobject list" where
  "recategorize old new txs =
     map (\<lambda>t. if get_prop t ''category'' = old then set_prop t ''category'' (JStr new) else t) txs"

definition handleCancelEditing :: "app \<Rightarrow> app" where
  "handleCancelEditing a = a\<lparr>editingCategoryId := None, editingCategoryName := []\<rparr>"

text \<open>First revision. The body of \<^verbatim>\<open>handleDeleteCategory\<close> runs in a timer, 300 ms after
  the click; this is the state change it makes then.\<close>

definition handleDeleteCategory :: "string \<Rightarrow> app \<Rightarrow> app" where
  "handleDeleteCategory categoryId a =
     (let categoryToDelete = find_category (categories a) categoryId;
          a1 = a\<lparr>categories := filter (\<lambda>c. cat_id c \<noteq> categoryId) (categories a)\<rparr>
      in case categoryToDelete of
           None \<Rightarrow> a1
         | Some c \<Rightarrow>
             a1\<lparr>transactions :=
                   recategorize (JStr (cat_name c)) ''Uncategorized'' (transactions a1)\<rparr>)"

definition handleSaveCategory :: "string \<Rightarrow> app \<Rightarrow> app" where
  "handleSaveCategory categoryId a =
     (let trimmedName = trim (editingCategoryName a)
      in if trimmedName = []
            \<or> list_ex (\<lambda>c. toLowerCase (cat_name c) = toLowerCase trimmedName
                              \<and> cat_id c \<noteq> categoryId) (categories a)
         then handleCancelEditing a
         else
           (case find_category (categories a) categoryId of
              None \<Rightarrow> a
            | Some oldCategory \<Rightarrow>
                handleCancelEditing
                  (a\<lparr>categories :=
                        map (\<lambda>c. if cat_id c = categoryId then c\<lparr>cat_name := trimmedName\<rparr> else c)
                          (categories a),
                      transactions :=
                        recategorize (JStr (cat_name oldCategory)) trimmedName
                          (transactions a)\<rparr>)))"

text \<open>Third revision: deleting rewrites the transactions, saving a new name does not.\<close>

definition handleDeleteCategory_rev3 :: "string \<Rightarrow> app \<Rightarrow> app" where
  "handleDeleteCategory_rev3 cid a =
     a\<lparr>transactions :=
          recategorize
            (case find_category (categories a) cid of
               None \<Rightarrow> JUndefined
             | Some c \<Rightarrow> JStr (cat_name c))
            ''Uncategorized'' (transactions a),
        categories := filter (\<lambda>c. cat_id c \<noteq> cid) (categories a)\<rparr>"

definition handleSaveCategory_rev3 :: "string \<Rightarrow> app \<Rightarrow> app" where
  "handleSaveCategory_rev3 cid a =
     a\<lparr>categories :=
          map (\<lambda>c. if cat_id c = cid then c\<lparr>cat_name := editingCategoryName a\<rparr> else c)
            (categories a),
        editingCategoryId := None\<rparr>"

section \<open>What is on the screen\<close>

datatype screen = UploadScreen | AnalysisScreen | ErrorScreen string

text \<open>First revision of the \<^verbatim>\<open>App\<close> component: the transaction table is part of
  \<^verbatim>\<open>AnalysisScreen\<close>, mounted when \<^verbatim>\<open>appState === 'analyzing'\<close> only.\<close>

definition render :: "app \<Rightarrow> screen list" where
  "render a =
     (if appState a = Upload then [UploadScreen] else []) @
     (if appState a = Analyzing then [AnalysisScreen] else []) @
     (if appState a = Error then [ErrorScreen (errorMessage a)] else [])"

text \<open>The revision of \<^verbatim>\<open>part_002\<close> keeps the table in the error state when it has rows.\<close>

definition render_part2 :: "app \<Rightarrow> screen list" where
  "render_part2 a =
     (if appState a = Init then []
      else
        (if appState a = Upload then [UploadScreen] else []) @
        (if appState a = Analyzing \<or> (appState a = Error \<and> transactions a \<noteq> [])
         then [AnalysisScreen] else []) @
        (if appState a = Error \<and> transactions a = [] then [ErrorScreen (errorMessage a)]
         else []))"

section \<open>\<^verbatim>\<open>JSON.parse\<close>\<close>

text \<open>
  A model of the built-in following the JSON grammar (ECMA-404), used to run the decoder
  on concrete lines. The general theorems below hold for every \<open>parse\<close>.
  A number is kept as the exact value of its literal, which is the value \<^verbatim>\<open>JSON.parse\<close>
  returns whenever that value is a double; a \<^verbatim>\<open>\u\<close> escape gives the code unit modulo 256.
  A duplicate key keeps its first place and its last value.
\<close>

definition json_ws :: "char \<Rightarrow> bool" where
  "json_ws c = (c = CHR 0x20 \<or> c = CHR 0x09 \<or> c = CHR 0x0A \<or> c = CHR 0x0D)"

definition skip_ws :: "string \<Rightarrow> string" where
  "skip_ws s = dropWhile json_ws s"

definition is_digit :: "char \<Rightarrow> bool" where
  "is_digit c = (48 \<le> (of_char c :: nat) \<and> (of_char c :: nat) \<le> 57)"

definition digit_val :: "char \<Rightarrow> nat" where
  "digit_val c = of_char c - 48"

definition digits_val :: "string \<Rightarrow> nat" where
  "digits_val ds = foldl (\<lambda>acc c. 10 * acc + digit_val c) 0 ds"

definition hex_val :: "char \<Rightarrow> nat option" where
  "hex_val c =
     (if is_digit c then Some (digit_val c)
      else if 97 \<le> (of_char c :: nat) \<and> (of_char c :: nat) \<le> 102 then Some (of_char c - 87)
      else if 65 \<le> (of_char c :: nat) \<and> (of_char c :: nat) \<le> 70 then Some (of_char c - 55)
      else None)"

text \<open>\<open>literal ks s\<close>: \<open>s\<close> without its prefix \<open>ks\<close>, when it has it.\<close>

fun literal :: "string \<Rightarrow> string \<Rightarrow> string option" where
  "literal [] s = Some s"
| "literal (k # ks) [] = None"
| "literal (k # ks) (c # cs) = (if k = c then literal ks cs else None)"

text \<open>The characters of a string after its opening quote, and the rest of the text.\<close>

fun parse_string :: "string \<Rightarrow> string \<Rightarrow> (string \<times> string) option" where
  "parse_string acc [] = None"
| "parse_string acc (c # cs) =
     (if c = CHR 0x22 then Some (acc, cs)
      else if (of_char c :: nat) < 32 then None
      else if c = CHR 0x5C then
        (case cs of
           [] \<Rightarrow> None
         | e # r \<Rightarrow>
             if e = CHR 0x22 \<or> e = CHR 0x5C \<or> e = CHR ''/'' then parse_string (acc @ [e]) r
             else if e = CHR ''b'' then parse_string (acc @ [CHR 0x08]) r
             else if e = CHR ''f'' then parse_string (acc @ [CHR 0x0C]) r
             else if e = CHR ''n'' then parse_string (acc @ [CHR 0x0A]) r
             else if e = CHR ''r'' then parse_string (acc @ [CHR 0x0D]) r
             else if e = CHR ''t'' then parse_string (acc @ [CHR 0x09]) r
             else if e = CHR ''u'' then
               (case r of
                  h1 # h2 # h3 # h4 # r' \<Rightarrow>
                    (case (hex_val h1, hex_val h2, hex_val h3, hex_val h4) of
                       (Some a, Some b, Some c', Some d) \<Rightarrow>
                         parse_string (acc @ [char_of (((a * 16 + b) * 16 + c') * 16 + d)]) r'
                     | _ \<Rightarrow> None)
                | _ \<Rightarrow> None)
             else None)
      else parse_string (acc @ [c]) cs)"

text \<open>\<^verbatim>\<open>-? (0 | [1-9][0-9]*) (. [0-9]+)? ([eE] [+-]? [0-9]+)?\<close>\<close>

definition parse_number :: "string \<Rightarrow> (jsval \<times> string) option" where
  "parse_number s =
     (let (neg, s1) = (case s of
                         [] \<Rightarrow> (False, s)
                       | c # r \<Rightarrow> if c = CHR ''-'' then (True, r) else (False, s));
          ip = takeWhile is_digit s1;
          s2 = dropWhile is_digit s1
      in if ip = [] \<or> (take 1 ip = ''0'' \<and> length ip > 1) then None
         else
           let (fp, s3) = (case s2 of
                             [] \<Rightarrow> (None, s2)
                           | c # r \<Rightarrow>
                               if c = CHR ''.''
                               then (Some (takeWhile is_digit r), dropWhile is_digit r)
                               else (None, s2))
           in if fp = Some [] then None
              else
                let (ex, s4) =
                      (case s3 of
                         [] \<Rightarrow> (None, s3)
                       | c # r \<Rightarrow>
                           if c = CHR ''e'' \<or> c = CHR ''E'' then
                             (let (eneg, r1) =
                                    (case r of
                                       [] \<Rightarrow> (False, r)
                                     | d # r' \<Rightarrow> if d = CHR ''-'' then (True, r')
                                                else if d = CHR ''+'' then (False, r')
                                                else (False, r))
                              in (Some (eneg, takeWhile is_digit r1), dropWhile is_digit r1))
                           else (None, s3))
                in if (case ex of None \<Rightarrow> False | Some (_, ds) \<Rightarrow> ds = []) then None
                   else
                     let fd = (case fp of None \<Rightarrow> [] | Some ds \<Rightarrow> ds);
                         m = (of_nat (digits_val (ip @ fd)) :: rat) / 10 ^ length fd;
                         v = (case ex of
                                None \<Rightarrow> m
                              | Some (eneg, ds) \<Rightarrow>
                                  if eneg then m / 10 ^ digits_val ds
                                  else m * 10 ^ digits_val ds)
                     in Some (JNum (Finite (if neg then - v else v)), s4))"

text \<open>
  Values, the elements of an array after its bracket, and the members of an object after
  its brace. The first argument bounds the number of nested calls; every second call at
  least has read a character, so twice the length of the text is never used up.
\<close>

fun parse_value :: "nat \<Rightarrow> string \<Rightarrow> (jsval \<times> string) option"
and parse_elements :: "nat \<Rightarrow> jsval list \<Rightarrow> string \<Rightarrow> (jsval \<times> string) option"
and parse_members :: "nat \<Rightarrow> jsobject \<Rightarrow> string \<Rightarrow> (jsval \<times> string) option" where
  "parse_value 0 s = None"
| "parse_value (Suc n) s =
     (case skip_ws s of
        [] \<Rightarrow> None
      | c # cs \<Rightarrow>
          if c = CHR ''{'' then
            (case skip_ws cs of
               [] \<Rightarrow> None
             | d # r \<Rightarrow> if d = CHR ''}'' then Some (JObj [], r) else parse_members n [] cs)
          else if c = CHR ''['' then
            (case skip_ws cs of
               [] \<Rightarrow> None
             | d # r \<Rightarrow> if d = CHR '']'' then Some (JArr [], r) else parse_elements n [] cs)
          else if c = CHR 0x22 then
            (case parse_string [] cs of None \<Rightarrow> None | Some (str, r) \<Rightarrow> Some (JStr str, r))
          else if c = CHR ''t'' then
            (case literal ''rue'' cs of None \<Rightarrow> None | Some r \<Rightarrow> Some (JBool True, r))
          else if c = CHR ''f'' then
            (case literal ''alse'' cs of None \<Rightarrow> None | Some r \<Rightarrow> Some (JBool False, r))
          else if c = CHR ''n'' then
            (case literal ''ull'' cs of None \<Rightarrow> None | Some r \<Rightarrow> Some (JNull, r))
          else parse_number (c # cs))"
| "parse_elements 0 acc s = None"
| "parse_elements (Suc n) acc s =
     (case parse_value n s of
        None \<Rightarrow> None
      | Some (v, r) \<Rightarrow>
          (case skip_ws r of
             [] \<Rightarrow> None
           | c # r' \<Rightarrow>
               if c = CHR '','' then parse_elements n (acc @ [v]) r'
               else if c = CHR '']'' then Some (JArr (acc @ [v]), r')
               else None))"
| "parse_members 0 acc s = None"
| "parse_members (Suc n) acc s =
     (case skip_ws s of
        [] \<Rightarrow> None
      | q # s1 \<Rightarrow>
          if q \<noteq> CHR 0x22 then None
          else
            (case parse_string [] s1 of
               None \<Rightarrow> None
             | Some (k, s2) \<Rightarrow>
                 (case skip_ws s2 of
                    [] \<Rightarrow> None
                  | c # s3 \<Rightarrow>
                      if c \<noteq> CHR '':'' then None
                      else
                        (case parse_value n s3 of
                           None \<Rightarrow> None
                         | Some (v, s4) \<Rightarrow>
                             (case skip_ws s4 of
                                [] \<Rightarrow> None
                              | d # s5 \<Rightarrow>
                                  if d = CHR '','' then parse_members n (set_prop acc k v) s5
                                  else if d = CHR ''}'' then Some (JObj (set_prop acc k v), s5)
                                  else None)))))"

definition json_parse :: "string \<Rightarrow> jsval option" where
  "json_parse s =
     (case parse_value (2 * length s + 2) s of
        None \<Rightarrow> None
      | Some (v, r) \<Rightarrow> if skip_ws r = [] then Some v else None)"

section \<open>Specification-level notions\<close>

text \<open>The records the decoder accepts among the lines \<open>ls\<close>, in the order of the lines.\<close>

definition accepted_records :: "(string \<Rightarrow> jsval option) \<Rightarrow> string list \<Rightarrow> jsobject list" where
  "accepted_records parse ls =
     concat (map (\<lambda>l. case decode_line parse l of Inl _ \<Rightarrow> [] | Inr r \<Rightarrow> [r]) ls)"

text \<open>Identity assignment along a list of accepted records, the counter starting at \<open>n\<close>.\<close>

fun assign_ids :: "(nat \<Rightarrow> int) \<Rightarrow> nat \<Rightarrow> jsobject list \<Rightarrow> jsobject list" where
  "assign_ids now n [] = []"
| "assign_ids now n (r # rs) = make_tx r (now n) n # assign_ids now (Suc n) rs"

text \<open>\<^verbatim>\<open>file && file.type === 'application/pdf'\<close>\<close>

definition is_pdf :: "upload_file option \<Rightarrow> bool" where
  "is_pdf f = (case f of None \<Rightarrow> False | Some f' \<Rightarrow> file_type f' = ''application/pdf'')"

text \<open>\<^verbatim>\<open>t.id\<close>\<close>

definition tx_id :: "jsobject \<Rightarrow> jsval" where
  "tx_id t = get_prop t ''id''"

text \<open>A transaction modulo its assigned id: the object without the property \<^verbatim>\<open>id\<close>.\<close>

definition without_id :: "jsobject \<Rightarrow> jsobject" where
  "without_id t = filter (\<lambda>p. fst p \<noteq> ''id'') t"

text \<open>\<^verbatim>\<open>ls.join('\n')\<close>: the lines with a newline between neighbours.\<close>

fun join_lines :: "string list \<Rightarrow> string" where
  "join_lines [] = []"
| "join_lines [l] = l"
| "join_lines (l # ls) = l @ newline # join_lines ls"

text \<open>A parsed value that is not a record with the four fields: a field is missing, or the
  amount is not a number. A value that is not an object has no field at all.\<close>

fun lacks_fields :: "jsval \<Rightarrow> bool" where
  "lacks_fields (JObj r) =
     (get_prop r ''date'' = JUndefined \<or> get_prop r ''description'' = JUndefined
      \<or> get_prop r ''type'' = JUndefined \<or> \<not> is_number (get_prop r ''amount''))"
| "lacks_fields _ = True"

text \<open>The invalid lines of the specification: blank, not parseable, or lacking a field.\<close>

definition malformed :: "(string \<Rightarrow> jsval option) \<Rightarrow> string \<Rightarrow> bool" where
  "malformed parse l =
     (trim l = [] \<or> (case parse l of None \<Rightarrow> True | Some v \<Rightarrow> lacks_fields v))"

text \<open>\<^verbatim>\<open>typeof v === 'string'\<close>.\<close>

fun is_string :: "jsval \<Rightarrow> bool" where
  "is_string (JStr _) = True"
| "is_string _ = False"

text \<open>A number that is neither an infinity nor \<^verbatim>\<open>NaN\<close>.\<close>

fun is_finite_number :: "jsval \<Rightarrow> bool" where
  "is_finite_number (JNum (Finite _)) = True"
| "is_finite_number _ = False"

text \<open>The shape the specification states for a stored transaction: a finite amount, one of
  the two type tags, a date and a description that are strings.\<close>

definition well_shaped :: "jsobject \<Rightarrow> bool" where
  "well_shaped t =
     (is_finite_number (get_prop t ''amount'')
      \<and> (get_prop t ''type'' = JStr ''debit'' \<or> get_prop t ''type'' = JStr ''credit'')
      \<and> is_string (get_prop t ''date'') \<and> is_string (get_prop t ''description''))"

text \<open>The fields of \<^verbatim>\<open>interface Transaction\<close>.\<close>

definition documented_fields :: "string list" where
  "documented_fields =
     [''id'', ''date'', ''description'', ''amount'', ''type'', ''category'', ''notes'']"

text \<open>An object whose every key is a field of the interface.\<close>

definition only_documented :: "jsobject \<Rightarrow> bool" where
  "only_documented t = list_all (\<lambda>k. List.member documented_fields k) (map fst t)"

text \<open>The record a line denotes: the object it parses to.\<close>

definition parsed_record :: "(string \<Rightarrow> jsval option) \<Rightarrow> string \<Rightarrow> jsobject" where
  "parsed_record parse l = (case parse l of Some (JObj r) \<Rightarrow> r | _ \<Rightarrow> [])"

text \<open>
  The lines the code keeps, in the words of the amended claim: not blank, and parsing to an
  object with a truthy date, a truthy description, an amount that is a number and a truthy
  type.
\<close>

definition passes_guard :: "(string \<Rightarrow> jsval option) \<Rightarrow> string \<Rightarrow> bool" where
  "passes_guard parse l =
     (trim l \<noteq> []
      \<and> (case parse l of
            Some (JObj r) \<Rightarrow>
              truthy (get_prop r ''date'') \<and> truthy (get_prop r ''description'')
              \<and> is_number (get_prop r ''amount'') \<and> truthy (get_prop r ''type'')
          | _ \<Rightarrow> False))"

text \<open>
  The store the specification promises for the lines \<open>ls\<close>: the records of every line that is
  in none of its invalid classes, in order.
\<close>

definition claimed_store ::
  "(string \<Rightarrow> jsval option) \<Rightarrow> (nat \<Rightarrow> int) \<Rightarrow> string list \<Rightarrow> jsobject list" where
  "claimed_store parse now ls =
     assign_ids now 0 (map (parsed_record parse) (filter (\<lambda>l. \<not> malformed parse l) ls))"

section \<open>Concrete inputs\<close>

definition statement_pdf :: upload_file where
  "statement_pdf = \<lparr>file_name = ''statement.pdf'', file_type = ''application/pdf''\<rparr>"

definition fresh_app :: app where
  "fresh_app =
     \<lparr>appState = Upload, transactions = [],
      categories = [\<lparr>cat_id = ''1'', cat_name = ''Groceries''\<rparr>,
                    \<lparr>cat_id = ''2'', cat_name = ''Utilities''\<rparr>,
                    \<lparr>cat_id = ''3'', cat_name = ''Rent''\<rparr>,
                    \<lparr>cat_id = ''4'', cat_name = ''Entertainment''\<rparr>],
      errorMessage = [], isStreaming = False, editingCategoryId = None,
      editingCategoryName = []\<rparr>"

definition same_tick :: "nat \<Rightarrow> int" where
  "same_tick k = 1700000000000"

definition coffee_line :: string where
  "coffee_line = ''{\"date\":\"2024-01-05\",\"description\":\"Coffee\",\"amount\":5.50,\"type\":\"debit\"}''"

definition salary_line :: string where
  "salary_line = ''{\"date\":\"2024-01-06\",\"description\":\"Salary\",\"amount\":2000,\"type\":\"credit\"}''"

definition coffee_record :: jsobject where
  "coffee_record = [(''date'', JStr ''2024-01-05''), (''description'', JStr ''Coffee''),
                    (''amount'', JNum (Finite (11 / 2))), (''type'', JStr ''debit'')]"

definition salary_record :: jsobject where
  "salary_record = [(''date'', JStr ''2024-01-06''), (''description'', JStr ''Salary''),
                    (''amount'', JNum (Finite 2000)), (''type'', JStr ''credit'')]"

definition example_chunks :: "string list" where
  "example_chunks =
     [''{\"date\":\"2024-01-05\",\"description\":\"Coffee\",\"amount\":5.'',
      ''50,\"type\":\"debit\"}'' @ [newline] @ ''{\"date\":\"2024-01-06\",\"desc'',
      ''ription\":\"Salary\",\"amount\":2000,\"type\":\"credit\"}'' @ [newline]]"

definition coffee_tx :: jsobject where
  "coffee_tx = [(''date'', JStr ''2024-01-05''), (''description'', JStr ''Coffee''),
                (''amount'', JNum (Finite (11 / 2))), (''type'', JStr ''debit''),
                (''id'', JStr ''1700000000000-0''), (''category'', JStr ''Uncategorized'')]"

definition salary_tx :: jsobject where
  "salary_tx = [(''date'', JStr ''2024-01-06''), (''description'', JStr ''Salary''),
                (''amount'', JNum (Finite 2000)), (''type'', JStr ''credit''),
                (''id'', JStr ''1700000000000-1''), (''category'', JStr ''Uncategorized'')]"

definition truncated_line :: string where
  "truncated_line = ''{\"date\":\"2024-01-0''"

definition missing_field_line :: string where
  "missing_field_line = ''{\"date\":\"2024-01-09\",\"amount\":3,\"type\":\"debit\"}''"

definition text_amount_line :: string where
  "text_amount_line = ''{\"date\":\"2024-01-09\",\"description\":\"Tea\",\"amount\":\"3\",\"type\":\"debit\"}''"

definition transfer_line :: string where
  "transfer_line = ''{\"date\":\"2024-01-07\",\"description\":\"Wire\",\"amount\":9,\"type\":\"transfer\"}''"

definition transfer_record :: jsobject where
  "transfer_record = [(''date'', JStr ''2024-01-07''), (''description'', JStr ''Wire''),
                      (''amount'', JNum (Finite 9)), (''type'', JStr ''transfer'')]"

definition transfer_tx :: jsobject where
  "transfer_tx = [(''date'', JStr ''2024-01-07''), (''description'', JStr ''Wire''),
                  (''amount'', JNum (Finite 9)), (''type'', JStr ''transfer''),
                  (''id'', JStr ''1700000000000-0''), (''category'', JStr ''Uncategorized'')]"

definition extra_line :: string where
  "extra_line = ''{\"date\":\"2024-01-08\",\"description\":\"Tea\",\"amount\":3,\"type\":\"debit\",\"balance\":40}''"

definition extra_record :: jsobject where
  "extra_record = [(''date'', JStr ''2024-01-08''), (''description'', JStr ''Tea''),
                   (''amount'', JNum (Finite 3)), (''type'', JStr ''debit''),
                   (''balance'', JNum (Finite 40))]"

definition extra_tx :: jsobject where
  "extra_tx = [(''date'', JStr ''2024-01-08''), (''description'', JStr ''Tea''),
               (''amount'', JNum (Finite 3)), (''type'', JStr ''debit''),
               (''balance'', JNum (Finite 40)),
               (''id'', JStr ''1700000000000-0''), (''category'', JStr ''Uncategorized'')]"

definition empty_date_line :: string where
  "empty_date_line = ''{\"date\":\"\",\"description\":\"Tea\",\"amount\":3,\"type\":\"debit\"}''"

definition empty_date_record :: jsobject where
  "empty_date_record = [(''date'', JStr []), (''description'', JStr ''Tea''),
                        (''amount'', JNum (Finite 3)), (''type'', JStr ''debit'')]"

text \<open>A browser storage with no saved note: every lookup returns \<^verbatim>\<open>null\<close>.\<close>

definition no_saved_note :: "jsobject \<Rightarrow> reject + string option" where
  "no_saved_note txData = Inr None"

text \<open>\<^verbatim>\<open>t.category\<close>\<close>

definition tx_category :: "jsobject \<Rightarrow> jsval" where
  "tx_category t = get_prop t ''category''"

text \<open>A stream that delivers one complete record and then throws.\<close>

definition quota_failure :: response where
  "quota_failure =
     \<lparr>chunks = [coffee_line @ [newline]], thrown = Some (ErrorObject ''quota exceeded'')\<rparr>"

text \<open>One transaction assigned to Groceries, and the category editor holding the new name
  Food for the category with id 1.\<close>

definition grocery_app :: app where
  "grocery_app =
     fresh_app\<lparr>appState := Analyzing,
                transactions := [set_prop coffee_tx ''category'' (JStr ''Groceries'')],
                editingCategoryId := Some ''1'', editingCategoryName := ''Food''\<rparr>"

text \<open>A line whose date is a number and whose description is a boolean.\<close>

definition untyped_line :: string where
  "untyped_line = ''{\"date\":7,\"description\":true,\"amount\":1,\"type\":\"transfer\"}''"

definition untyped_record :: jsobject where
  "untyped_record = [(''date'', JNum (Finite 7)), (''description'', JBool True),
                     (''amount'', JNum (Finite 1)), (''type'', JStr ''transfer'')]"

text \<open>A line with its four fields, of the documented types, and an empty description.\<close>

definition blank_description_line :: string where
  "blank_description_line = ''{\"date\":\"2024-01-09\",\"description\":\"\",\"amount\":3,\"type\":\"debit\"}''"

definition blank_description_record :: jsobject where
  "blank_description_record = [(''date'', JStr ''2024-01-09''), (''description'', JStr []),
                               (''amount'', JNum (Finite 3)), (''type'', JStr ''debit'')]"

text \<open>That line between two valid ones.\<close>

definition three_lines :: "string list" where
  "three_lines = [coffee_line, blank_description_line, salary_line]"

text \<open>Valid lines among lines of every invalid kind, and the two chunks that carry them, cut
  in the middle of a field.\<close>

definition noisy_lines :: "string list" where
  "noisy_lines =
     [coffee_line, [], ''  '', truncated_line, missing_field_line, text_amount_line,
      blank_description_line, salary_line]"

definition noisy_chunks :: "string list" where
  "noisy_chunks =
     [coffee_line @ [newline, newline] @ ''  '' @ [newline] @ truncated_line @ [newline]
        @ ''{\"date\":\"2024'',
      ''-01-09\",\"amount\":3,\"type\":\"debit\"}'' @ [newline] @ text_amount_line @ [newline]
        @ blank_description_line @ [newline] @ salary_line]"

section \<open>Splitting and reassembly\<close>

lemma split_from_nonempty [simp]: "split_from cur s \<noteq> []"
  by (induction s arbitrary: cur) auto

lemma split_nl_nonempty [simp]: "split_nl s \<noteq> []"
  by (simp add: split_nl_def)

lemma split_from_append:
  "split_from cur (a @ b) = butlast (split_from cur a) @ split_from (last (split_from cur a)) b"
  by (induction a arbitrary: cur) auto

lemma split_from_shift:
  "newline \<notin> set a \<Longrightarrow> split_from cur (a @ s) = split_from (cur @ a) s"
  by (induction a arbitrary: cur) auto

lemma split_from_pieces:
  "newline \<notin> set cur \<Longrightarrow> \<forall>p\<in>set (split_from cur s). newline \<notin> set p"
proof (induction s arbitrary: cur)
  case Nil
  then show ?case by simp
next
  case (Cons c s)
  show ?case
  proof (cases "c = newline")
    case True
    with Cons.prems Cons.IH [of "[]"] show ?thesis by simp
  next
    case False
    with Cons.prems Cons.IH [of "cur @ [c]"] show ?thesis by simp
  qed
qed

lemma split_nl_pieces: "p \<in> set (split_nl s) \<Longrightarrow> newline \<notin> set p"
  using split_from_pieces [of "[]" s] by (simp add: split_nl_def)

lemma last_split_nl_clean: "newline \<notin> set (last (split_nl s))"
  by (rule split_nl_pieces [of _ s]) simp

lemma split_nl_clean: "newline \<notin> set s \<Longrightarrow> split_nl s = [s]"
  using split_from_shift [of s "[]" "[]"] by (simp add: split_nl_def)

lemma split_nl_append:
  "split_nl (a @ b) = butlast (split_nl a) @ split_nl (last (split_nl a) @ b)"
proof -
  have "split_from (last (split_nl a)) b = split_from [] (last (split_nl a) @ b)"
    using split_from_shift [of "last (split_nl a)" "[]" b] last_split_nl_clean [of a] by simp
  then show ?thesis
    using split_from_append [of "[]" a b] by (simp add: split_nl_def)
qed

lemma pop_split_nl [simp]: "pop (split_nl s) = (butlast (split_nl s), Some (last (split_nl s)))"
  by (simp add: pop_def)

lemma or_empty_Some [simp]: "or_empty (Some s) = s"
  by (simp add: or_empty_def)

lemma accepted_records_append [simp]:
  "accepted_records parse (xs @ ys) = accepted_records parse xs @ accepted_records parse ys"
  by (simp add: accepted_records_def)

lemma accepted_records_Nil [simp]: "accepted_records parse [] = []"
  by (simp add: accepted_records_def)

lemma accepted_records_Cons:
  "accepted_records parse (l # ls) =
     (case decode_line parse l of Inl _ \<Rightarrow> [] | Inr r \<Rightarrow> [r]) @ accepted_records parse ls"
  by (simp add: accepted_records_def)

lemma assign_ids_append:
  "assign_ids now n (xs @ ys) = assign_ids now n xs @ assign_ids now (n + length xs) ys"
  by (induction xs arbitrary: n) auto

lemma length_assign_ids [simp]: "length (assign_ids now n rs) = length rs"
  by (induction rs arbitrary: n) auto

lemma process_lines_eq:
  "process_lines parse now ls (acc, n) =
     (acc @ assign_ids now n (accepted_records parse ls), n + length (accepted_records parse ls))"
  by (induction ls arbitrary: acc n) (auto simp: accepted_records_Cons split: sum.splits)

lemma on_chunk_eq:
  "on_chunk parse now st c =
     \<lparr> buffer = last (split_nl (buffer st @ c)),
       transactionCount = transactionCount st
          + length (accepted_records parse (butlast (split_nl (buffer st @ c)))),
       ui = (ui st)\<lparr>transactions := transactions (ui st) @
               assign_ids now (transactionCount st)
                 (accepted_records parse (butlast (split_nl (buffer st @ c))))\<rparr> \<rparr>"
  by (simp add: on_chunk_def process_lines_eq Let_def)

lemma feed_eq:
  "newline \<notin> set (buffer st) \<Longrightarrow>
   foldl (on_chunk parse now) st cs =
     \<lparr> buffer = last (split_nl (buffer st @ concat cs)),
       transactionCount = transactionCount st
          + length (accepted_records parse (butlast (split_nl (buffer st @ concat cs)))),
       ui = (ui st)\<lparr>transactions := transactions (ui st) @
               assign_ids now (transactionCount st)
                 (accepted_records parse (butlast (split_nl (buffer st @ concat cs))))\<rparr> \<rparr>"
proof (induction cs arbitrary: st)
  case Nil
  then show ?case by (simp add: split_nl_clean)
next
  case (Cons c cs)
  have clean: "newline \<notin> set (buffer (on_chunk parse now st c))"
    by (simp add: on_chunk_eq last_split_nl_clean)
  show ?case
    apply (simp add: Cons.IH [OF clean])
    apply (simp add: on_chunk_eq)
    apply (simp add: split_nl_append [of "buffer st @ c" "concat cs", simplified] butlast_append assign_ids_append)
    done
qed

section \<open>The whole ingestion\<close>

lemma flush_eq:
  "flush parse now st =
     st\<lparr> transactionCount := transactionCount st + length (accepted_records parse [buffer st]),
          ui := (ui st)\<lparr>transactions := transactions (ui st) @
                   assign_ids now (transactionCount st) (accepted_records parse [buffer st])\<rparr> \<rparr>"
  by (simp add: flush_def accepted_records_Cons split: sum.splits)

lemma ingest_done:
  assumes "file_type f = ''application/pdf''"
  shows "handleFileChange parse now (Some f) \<lparr>chunks = cs, thrown = None\<rparr> a =
     a\<lparr>appState := Analyzing, errorMessage := [], isStreaming := False,
        transactions := assign_ids now 0 (accepted_records parse (split_nl (concat cs)))\<rparr>"
proof -
  have "accepted_records parse (butlast (split_nl (concat cs)) @ [last (split_nl (concat cs))])
        = accepted_records parse (split_nl (concat cs))"
    by simp
  then have *: "accepted_records parse (butlast (split_nl (concat cs))) @ accepted_records parse [last (split_nl (concat cs))]
        = accepted_records parse (split_nl (concat cs))"
    by (simp only: accepted_records_append)
  have "assign_ids now 0 (accepted_records parse (butlast (split_nl (concat cs)))) @
          assign_ids now (length (accepted_records parse (butlast (split_nl (concat cs)))))
            (accepted_records parse [last (split_nl (concat cs))])
        = assign_ids now 0 (accepted_records parse (split_nl (concat cs)))"
    using assign_ids_append [of now 0 "accepted_records parse (butlast (split_nl (concat cs)))"
        "accepted_records parse [last (split_nl (concat cs))]"]
    by (simp only: * add_0)
  then show ?thesis
    using assms
    by (simp add: handleFileChange_def feed_eq flush_eq Let_def)
qed

lemma ingest_failed:
  assumes "file_type f = ''application/pdf''"
  shows "handleFileChange parse now (Some f) \<lparr>chunks = cs, thrown = Some e\<rparr> a =
     a\<lparr>appState := Error, errorMessage := failure_message e, isStreaming := False,
        transactions := assign_ids now 0 (accepted_records parse (butlast (split_nl (concat cs))))\<rparr>"
  using assms by (simp add: handleFileChange_def feed_eq Let_def)

lemma get_set_prop: "get_prop (set_prop obj k v) k' = (if k' = k then v else get_prop obj k')"
  by (induction obj) (auto simp: get_prop_def)

lemma map_fst_set_prop:
  "map fst (set_prop obj k v) = (if k \<in> set (map fst obj) then map fst obj else map fst obj @ [k])"
  by (induction obj) (auto simp: rev_image_eqI)

lemma keys_set_prop: "set (map fst (set_prop obj k v)) = insert k (set (map fst obj))"
  by (auto simp: map_fst_set_prop)

lemma without_id_set_id: "without_id (set_prop obj ''id'' v) = without_id obj"
  by (induction obj) (auto simp: without_id_def)

lemma without_id_set_other:
  "k \<noteq> ''id'' \<Longrightarrow> without_id (set_prop obj k v) = set_prop (without_id obj) k v"
  by (induction obj) (auto simp: without_id_def)

lemma without_id_make_tx:
  "without_id (make_tx r t n) = set_prop (without_id r) ''category'' (JStr ''Uncategorized'')"
  by (simp add: make_tx_def without_id_set_id without_id_set_other)

lemma without_id_assign_ids:
  "map without_id (assign_ids now n rs) =
     map (\<lambda>r. set_prop (without_id r) ''category'' (JStr ''Uncategorized'')) rs"
  by (induction rs arbitrary: n) (auto simp: without_id_make_tx)

lemma tx_id_make_tx: "tx_id (make_tx r t n) = JStr (make_id t n)"
  by (simp add: tx_id_def make_tx_def get_set_prop)

lemma digits_val_snoc: "digits_val (ds @ [c]) = 10 * digits_val ds + digit_val c"
  by (simp add: digits_val_def)

lemma below_ten:
  "(d::nat) < 10 \<Longrightarrow>
     d = 0 \<or> d = 1 \<or> d = 2 \<or> d = 3 \<or> d = 4 \<or> d = 5 \<or> d = 6 \<or> d = 7 \<or> d = 8 \<or> d = 9"
  by arith

lemma digit_val_digit_char: "d < 10 \<Longrightarrow> digit_val (digit_char d) = d"
  using below_ten [of d] by (auto simp: digit_val_def digit_char_def)

lemma digit_char_not_minus: "digit_char d \<noteq> CHR ''-''"
  using below_ten [of "d mod 10"] by (auto simp: digit_char_def)

lemma digits_val_show_nat: "digits_val (show_nat n) = n"
proof (induction n rule: show_nat.induct)
  case (1 n)
  show ?case
  proof (cases "n < 10")
    case True
    then show ?thesis
      using digit_val_digit_char [of n]
      by (simp add: show_nat.simps [of n] digits_val_def)
  next
    case False
    then show ?thesis
      using 1 digit_val_digit_char [of "n mod 10"]
      by (simp add: show_nat.simps [of n] digits_val_snoc)
  qed
qed

lemma show_nat_no_minus: "CHR ''-'' \<notin> set (show_nat n)"
proof (induction n rule: show_nat.induct)
  case (1 n)
  then show ?case
    using digit_char_not_minus [of n] digit_char_not_minus [of "n mod 10"]
    by (cases "n < 10") (auto simp: show_nat.simps [of n])
qed

lemma show_nat_inj: "show_nat m = show_nat n \<Longrightarrow> m = n"
  by (metis digits_val_show_nat)

lemma suffix_after_separator:
  assumes "a @ c # x = b @ c # y" and "c \<notin> set x" and "c \<notin> set y"
  shows "x = y"
proof -
  have "rev x @ c # rev a = rev y @ c # rev b"
    using arg_cong [OF assms(1), of rev] by simp
  then have "takeWhile (\<lambda>z. z \<noteq> c) (rev x @ c # rev a) = takeWhile (\<lambda>z. z \<noteq> c) (rev y @ c # rev b)"
    by simp
  moreover have "takeWhile (\<lambda>z. z \<noteq> c) (rev x @ c # rev a) = rev x"
    using assms(2) by (auto simp: takeWhile_tail)
  moreover have "takeWhile (\<lambda>z. z \<noteq> c) (rev y @ c # rev b) = rev y"
    using assms(3) by (auto simp: takeWhile_tail)
  ultimately show ?thesis by simp
qed

lemma make_id_inj: "make_id t m = make_id u n \<Longrightarrow> m = n"
proof -
  assume "make_id t m = make_id u n"
  then have "show_int t @ CHR ''-'' # show_nat m = show_int u @ CHR ''-'' # show_nat n"
    by (simp add: make_id_def)
  then have "show_nat m = show_nat n"
    by (rule suffix_after_separator) (rule show_nat_no_minus)+
  then show ?thesis by (rule show_nat_inj)
qed

lemma ids_assign_ids:
  "map tx_id (assign_ids now n rs) = map (\<lambda>k. JStr (make_id (now k) k)) [n ..< n + length rs]"
proof (induction rs arbitrary: n)
  case Nil
  then show ?case by simp
next
  case (Cons r rs)
  have "[n ..< n + length (r # rs)] = n # [Suc n ..< Suc n + length rs]"
    by (simp add: upt_rec)
  then show ?case
    using Cons.IH [of "Suc n"] by (simp add: tx_id_make_tx)
qed

lemma distinct_ids_assign_ids: "distinct (map tx_id (assign_ids now n rs))"
proof -
  have "inj_on (\<lambda>k. JStr (make_id (now k) k)) (set [n ..< n + length rs])"
    by (rule inj_onI) (auto dest: make_id_inj)
  then show ?thesis
    by (simp add: ids_assign_ids distinct_map)
qed

section \<open>Streams of lines\<close>

lemma decode_line_blank [simp]: "decode_line parse [] = Inl Blank"
  by (simp add: decode_line_def trim_def)

lemma decode_line_guard: "decode_line parse l = Inr r \<Longrightarrow> guard r"
  by (auto simp: decode_line_def split: if_splits option.splits elim: check_record.elims)

lemma accepted_records_guard: "r \<in> set (accepted_records parse ls) \<Longrightarrow> guard r"
  by (induction ls) (auto simp: accepted_records_Cons decode_line_guard split: sum.splits)

lemma lacks_fields_rejected: "lacks_fields v \<Longrightarrow> \<exists>e. check_record v = Inl e"
  by (cases v) (auto simp: guard_def)

lemma malformed_rejected: "malformed parse l \<Longrightarrow> accepted_records parse [l] = []"
proof -
  assume m: "malformed parse l"
  have "\<exists>e. decode_line parse l = Inl e"
  proof (cases "trim l = []")
    case True
    then show ?thesis by (simp add: decode_line_def)
  next
    case False
    show ?thesis
    proof (cases "parse l")
      case None
      with False show ?thesis by (simp add: decode_line_def)
    next
      case (Some v)
      with False m have "lacks_fields v" by (simp add: malformed_def)
      then show ?thesis
        using False Some lacks_fields_rejected [of v] by (simp add: decode_line_def)
    qed
  qed
  then show ?thesis
    by (auto simp: accepted_records_Cons)
qed


lemma split_nl_line: "newline \<notin> set l \<Longrightarrow> split_nl (l @ newline # s) = l # split_nl s"
  using split_from_shift [of l "[]" "newline # s"] by (simp add: split_nl_def)

lemma split_nl_join:
  "ls \<noteq> [] \<Longrightarrow> \<forall>l\<in>set ls. newline \<notin> set l \<Longrightarrow>
   split_nl (join_lines ls @ t) = butlast ls @ split_nl (last ls @ t)"
  by (induction ls rule: join_lines.induct) (simp_all add: split_nl_line)

lemma split_nl_text:
  assumes "\<forall>l\<in>set ls. newline \<notin> set l" and "t = [] \<or> t = [newline]"
  shows "accepted_records parse (split_nl (join_lines ls @ t)) = accepted_records parse ls"
proof (cases "ls = []")
  case True
  with assms(2) show ?thesis
    by (auto simp: split_nl_def accepted_records_Cons)
next
  case False
  then have last_clean: "newline \<notin> set (last ls)"
    using assms(1) by simp
  have "split_nl (join_lines ls @ t) = butlast ls @ split_nl (last ls @ t)"
    using False assms(1) by (rule split_nl_join)
  moreover have "accepted_records parse (split_nl (last ls @ t)) = accepted_records parse [last ls]"
    using assms(2) last_clean split_nl_line [of "last ls" "[]"]
    by (auto simp: split_nl_clean accepted_records_Cons [of parse "last ls" "[[]]"]
        accepted_records_Cons [of parse "[]" "[]"] accepted_records_Cons [of parse "last ls" "[]"]
        split_nl_def [of "[]"])
  moreover have "accepted_records parse (butlast ls @ [last ls]) = accepted_records parse ls"
    using False by simp
  ultimately show ?thesis
    by (simp only: accepted_records_append)
qed

lemma stream_of_lines:
  assumes "file_type f = ''application/pdf''" and "\<forall>l\<in>set ls. newline \<notin> set l"
    and "concat cs = join_lines ls @ t" and "t = [] \<or> t = [newline]"
  shows "transactions (handleFileChange parse now (Some f) \<lparr>chunks = cs, thrown = None\<rparr> a) =
     assign_ids now 0 (accepted_records parse ls)"
  using assms by (simp add: ingest_done split_nl_text)


lemma ingest_transactions:
  assumes "file_type f = ''application/pdf''"
  shows "\<exists>ls. transactions (handleFileChange parse now (Some f) resp a) =
           assign_ids now 0 (accepted_records parse ls)"
proof -
  obtain cs th where resp: "resp = \<lparr>chunks = cs, thrown = th\<rparr>"
    by (cases resp) simp
  show ?thesis
  proof (cases th)
    case None
    show ?thesis
      unfolding resp None
      by (rule exI [of _ "split_nl (concat cs)"]) (simp add: ingest_done [OF assms])
  next
    case (Some e)
    show ?thesis
      unfolding resp Some
      by (rule exI [of _ "butlast (split_nl (concat cs))"]) (simp add: ingest_failed [OF assms])
  qed
qed

section \<open>Evaluating the decoder on the example lines\<close>

lemma pdf_type: "file_type statement_pdf = ''application/pdf''"
  by (simp add: statement_pdf_def)

lemma parse_coffee: "json_parse coffee_line = Some (JObj coffee_record)"
  by code_simp

lemma parse_salary: "json_parse salary_line = Some (JObj salary_record)"
  by code_simp

lemma decode_coffee: "decode_line json_parse coffee_line = Inr coffee_record"
proof -
  have "trim coffee_line \<noteq> []" by code_simp
  moreover have "guard coffee_record" by code_simp
  ultimately show ?thesis by (simp add: decode_line_def parse_coffee)
qed

lemma decode_salary: "decode_line json_parse salary_line = Inr salary_record"
proof -
  have "trim salary_line \<noteq> []" by code_simp
  moreover have "guard salary_record" by code_simp
  ultimately show ?thesis by (simp add: decode_line_def parse_salary)
qed

lemma clean_coffee: "newline \<notin> set coffee_line"
  by code_simp

lemma clean_salary: "newline \<notin> set salary_line"
  by code_simp

lemma example_text: "concat example_chunks = join_lines [coffee_line, salary_line] @ [newline]"
  by code_simp

lemma example_ids: "assign_ids same_tick 0 [coffee_record, salary_record] = [coffee_tx, salary_tx]"
  by code_simp

lemma example_accepted:
  "accepted_records json_parse [coffee_line, salary_line] = [coffee_record, salary_record]"
  by (simp add: accepted_records_Cons decode_coffee decode_salary)

lemma example_result:
  "transactions
     (handleFileChange json_parse same_tick (Some statement_pdf)
        \<lparr>chunks = example_chunks, thrown = None\<rparr> fresh_app) = [coffee_tx, salary_tx]"
proof -
  have clean: "\<forall>l\<in>set [coffee_line, salary_line]. newline \<notin> set l"
    by (simp add: clean_coffee clean_salary)
  have tail: "[newline] = [] \<or> [newline] = [newline]"
    by simp
  have "transactions
     (handleFileChange json_parse same_tick (Some statement_pdf)
        \<lparr>chunks = example_chunks, thrown = None\<rparr> fresh_app) =
     assign_ids same_tick 0 (accepted_records json_parse [coffee_line, salary_line])"
    by (rule stream_of_lines [OF pdf_type clean example_text tail])
  then show ?thesis
    by (simp only: example_accepted example_ids)
qed

lemma malformed_empty: "malformed json_parse []"
  by code_simp

lemma malformed_spaces: "malformed json_parse ''  ''"
  by code_simp

lemma malformed_truncated: "malformed json_parse truncated_line"
  by code_simp

lemma malformed_missing: "malformed json_parse missing_field_line"
  by code_simp

lemma malformed_text_amount: "malformed json_parse text_amount_line"
  by code_simp

section \<open>Chunk-boundary invariance\<close>

lemma not_pdf_transactions:
  "\<not> is_pdf f \<Longrightarrow> transactions (handleFileChange parse now f resp a) = transactions a"
  by (simp add: handleFileChange_def is_pdf_def)

text \<open>
  Claim C1. Whatever the clock, a text fed in any number of chunks, cut anywhere, leaves the
  same transactions, up to their ids, as the same text fed as one chunk.
\<close>

theorem chunk_boundary_invariance:
  "map without_id (transactions (handleFileChange parse now f \<lparr>chunks = cs, thrown = None\<rparr> a)) =
   map without_id
     (transactions (handleFileChange parse now' f \<lparr>chunks = [concat cs], thrown = None\<rparr> a))"
proof (cases "is_pdf f")
  case True
  then obtain f' where "f = Some f'" and "file_type f' = ''application/pdf''"
    by (auto simp: is_pdf_def split: option.splits)
  then show ?thesis
    by (simp add: ingest_done without_id_assign_ids)
next
  case False
  then show ?thesis by (simp add: not_pdf_transactions)
qed

theorem chunk_boundary_invariance_witness:
  "map without_id
     (transactions
        (handleFileChange json_parse same_tick (Some statement_pdf)
           \<lparr>chunks = example_chunks, thrown = None\<rparr> fresh_app)) =
   map without_id
     (transactions
        (handleFileChange json_parse same_tick (Some statement_pdf)
           \<lparr>chunks = [concat example_chunks], thrown = None\<rparr> fresh_app))
   \<and> transactions
        (handleFileChange json_parse same_tick (Some statement_pdf)
           \<lparr>chunks = example_chunks, thrown = None\<rparr> fresh_app) = [coffee_tx, salary_tx]"
  using chunk_boundary_invariance [of json_parse same_tick "Some statement_pdf" example_chunks
      fresh_app same_tick] example_result
  by (rule conjI)

section \<open>Order preservation\<close>



section \<open>Id uniqueness\<close>

text \<open>
  Claim C3. Within one ingestion session the assigned ids are pairwise distinct, whatever
  the clock reads: the counter alone separates them.
\<close>

theorem ids_pairwise_distinct:
  assumes "file_type f = ''application/pdf''"
  shows "distinct (map tx_id (transactions (handleFileChange parse now (Some f) resp a)))"
  using ingest_transactions [OF assms, of parse now resp a]
  by (auto simp: distinct_ids_assign_ids)

theorem ids_pairwise_distinct_witness:
  "distinct (map tx_id
     (transactions
        (handleFileChange json_parse same_tick (Some statement_pdf)
           \<lparr>chunks = example_chunks, thrown = None\<rparr> fresh_app)))
   \<and> map tx_id
     (transactions
        (handleFileChange json_parse same_tick (Some statement_pdf)
           \<lparr>chunks = example_chunks, thrown = None\<rparr> fresh_app)) =
     [JStr ''1700000000000-0'', JStr ''1700000000000-1'']
   \<and> same_tick 0 = same_tick 1"
proof -
  have "map tx_id [coffee_tx, salary_tx] = [JStr ''1700000000000-0'', JStr ''1700000000000-1'']"
    by code_simp
  then have "map tx_id
     (transactions
        (handleFileChange json_parse same_tick (Some statement_pdf)
           \<lparr>chunks = example_chunks, thrown = None\<rparr> fresh_app)) =
     [JStr ''1700000000000-0'', JStr ''1700000000000-1'']"
    by (simp only: example_result)
  moreover have "same_tick 0 = same_tick 1"
    by (simp add: same_tick_def)
  moreover note ids_pairwise_distinct [OF pdf_type, of json_parse same_tick
      "\<lparr>chunks = example_chunks, thrown = None\<rparr>" fresh_app]
  ultimately show ?thesis by blast
qed

section \<open>Malformed-line tolerance\<close>

lemma decode_line_passes:
  "passes_guard parse l \<Longrightarrow> decode_line parse l = Inr (parsed_record parse l)"
  by (auto simp: passes_guard_def parsed_record_def decode_line_def guard_def
      split: option.splits jsval.splits)

lemma decode_line_fails:
  "\<not> passes_guard parse l \<Longrightarrow> \<exists>e. decode_line parse l = Inl e"
  by (auto simp: passes_guard_def decode_line_def guard_def split: option.splits jsval.splits)

lemma accepted_records_filter:
  "accepted_records parse ls = map (parsed_record parse) (filter (passes_guard parse) ls)"
proof (induction ls)
  case Nil
  then show ?case by simp
next
  case (Cons l ls)
  show ?case
  proof (cases "passes_guard parse l")
    case True
    then show ?thesis
      using Cons decode_line_passes [of parse l] by (simp add: accepted_records_Cons)
  next
    case False
    then obtain e where "decode_line parse l = Inl e"
      using decode_line_fails by blast
    with False Cons show ?thesis by (simp add: accepted_records_Cons)
  qed
qed

lemma malformed_fails: "malformed parse l \<Longrightarrow> \<not> passes_guard parse l"
  by (auto simp: malformed_def passes_guard_def split: option.splits jsval.splits)

lemma passes_coffee: "passes_guard json_parse coffee_line"
proof -
  have "trim coffee_line \<noteq> []" by code_simp
  moreover have "guard coffee_record" by code_simp
  ultimately show ?thesis by (simp add: passes_guard_def parse_coffee guard_def)
qed

lemma passes_salary: "passes_guard json_parse salary_line"
proof -
  have "trim salary_line \<noteq> []" by code_simp
  moreover have "guard salary_record" by code_simp
  ultimately show ?thesis by (simp add: passes_guard_def parse_salary guard_def)
qed

lemma parse_blank_description:
  "json_parse blank_description_line = Some (JObj blank_description_record)"
  by code_simp

lemma blank_description_fails: "\<not> passes_guard json_parse blank_description_line"
proof -
  have "\<not> truthy (get_prop blank_description_record ''description'')" by code_simp
  then show ?thesis by (simp add: passes_guard_def parse_blank_description)
qed

lemma blank_description_not_malformed: "\<not> malformed json_parse blank_description_line"
proof -
  have "trim blank_description_line \<noteq> []" by code_simp
  moreover have "\<not> lacks_fields (JObj blank_description_record)" by code_simp
  ultimately show ?thesis by (simp add: malformed_def parse_blank_description)
qed

lemma coffee_not_malformed: "\<not> malformed json_parse coffee_line"
  using passes_coffee malformed_fails by blast

lemma salary_not_malformed: "\<not> malformed json_parse salary_line"
  using passes_salary malformed_fails by blast

lemma clean_blank_description: "newline \<notin> set blank_description_line"
  by code_simp

lemma noisy_text: "concat noisy_chunks = join_lines noisy_lines @ []"
  by code_simp

lemma noisy_clean: "\<forall>l\<in>set noisy_lines. newline \<notin> set l"
  by code_simp

lemma noisy_kept: "filter (passes_guard json_parse) noisy_lines = [coffee_line, salary_line]"
  using malformed_fails [OF malformed_empty] malformed_fails [OF malformed_spaces]
    malformed_fails [OF malformed_truncated] malformed_fails [OF malformed_missing]
    malformed_fails [OF malformed_text_amount]
  by (simp add: noisy_lines_def passes_coffee passes_salary blank_description_fails)

lemma kept_records:
  "map (parsed_record json_parse) [coffee_line, salary_line] = [coffee_record, salary_record]"
  by (simp add: parsed_record_def parse_coffee parse_salary)

lemma blank_description_shaped: "well_shaped blank_description_record"
  by code_simp

text \<open>
  Claim C5, as the code has it. Whatever the lines of the stream are, the store holds exactly
  the records of the lines that are not blank and parse to an object with a truthy date, a
  truthy description, a numeric amount and a truthy type, in the order of the lines; every
  other line is skipped, the lines of the four invalid classes among them, and the pipeline
  does not fail.
\<close>

theorem malformed_lines_skipped:
  assumes "file_type f = ''application/pdf''"
    and "\<forall>l\<in>set ls. newline \<notin> set l"
    and "concat cs = join_lines ls @ t" and "t = [] \<or> t = [newline]"
  shows "transactions (handleFileChange parse now (Some f) \<lparr>chunks = cs, thrown = None\<rparr> a) =
           assign_ids now 0 (map (parsed_record parse) (filter (passes_guard parse) ls))
     \<and> appState (handleFileChange parse now (Some f) \<lparr>chunks = cs, thrown = None\<rparr> a) = Analyzing
     \<and> errorMessage (handleFileChange parse now (Some f) \<lparr>chunks = cs, thrown = None\<rparr> a) = []
     \<and> (malformed parse x \<longrightarrow> \<not> passes_guard parse x)"
  using stream_of_lines [OF assms(1) assms(2) assms(3) assms(4), of parse now a] assms(1)
  by (simp add: ingest_done accepted_records_filter malformed_fails)

theorem malformed_lines_skipped_witness:
  "transactions
     (handleFileChange json_parse same_tick (Some statement_pdf)
        \<lparr>chunks = noisy_chunks, thrown = None\<rparr> fresh_app) = [coffee_tx, salary_tx]
   \<and> appState
     (handleFileChange json_parse same_tick (Some statement_pdf)
        \<lparr>chunks = noisy_chunks, thrown = None\<rparr> fresh_app) = Analyzing
   \<and> filter (passes_guard json_parse) noisy_lines = [coffee_line, salary_line]
   \<and> malformed json_parse truncated_line
   \<and> \<not> passes_guard json_parse truncated_line
   \<and> malformed json_parse missing_field_line
   \<and> malformed json_parse text_amount_line
   \<and> \<not> passes_guard json_parse blank_description_line
   \<and> concat noisy_chunks = join_lines noisy_lines"
proof -
  have tail: "[] = [] \<or> [] = [newline]"
    by simp
  note inst = malformed_lines_skipped [OF pdf_type noisy_clean noisy_text tail,
      of json_parse same_tick fresh_app truncated_line]
  have "transactions
     (handleFileChange json_parse same_tick (Some statement_pdf)
        \<lparr>chunks = noisy_chunks, thrown = None\<rparr> fresh_app) =
     assign_ids same_tick 0
       (map (parsed_record json_parse) (filter (passes_guard json_parse) noisy_lines))"
    by (rule conjunct1 [OF inst])
  then have stored: "transactions
     (handleFileChange json_parse same_tick (Some statement_pdf)
        \<lparr>chunks = noisy_chunks, thrown = None\<rparr> fresh_app) = [coffee_tx, salary_tx]"
    by (simp only: noisy_kept kept_records example_ids)
  have state: "appState
     (handleFileChange json_parse same_tick (Some statement_pdf)
        \<lparr>chunks = noisy_chunks, thrown = None\<rparr> fresh_app) = Analyzing"
    by (rule conjunct1 [OF conjunct2 [OF inst]])
  have "malformed json_parse truncated_line \<longrightarrow> \<not> passes_guard json_parse truncated_line"
    by (rule conjunct2 [OF conjunct2 [OF conjunct2 [OF inst]]])
  then have skipped: "\<not> passes_guard json_parse truncated_line"
    using malformed_truncated by (rule mp)
  have joined: "concat noisy_chunks = join_lines noisy_lines"
    using noisy_text by simp
  show ?thesis
    using stored state noisy_kept malformed_truncated skipped malformed_missing
      malformed_text_amount blank_description_fails joined
    by (intro conjI)
qed

text \<open>
  Claim C5 as stated fails: a line with an empty description is in none of the four invalid
  classes, and the code skips it, so the store has two of the three records.
\<close>

theorem blank_description_counterexample:
  "transactions
     (handleFileChange json_parse same_tick (Some statement_pdf)
        \<lparr>chunks = [join_lines three_lines], thrown = None\<rparr> fresh_app) \<noteq>
   claimed_store json_parse same_tick three_lines"
proof -
  have clean: "\<forall>l\<in>set three_lines. newline \<notin> set l"
    by (simp add: three_lines_def clean_coffee clean_salary clean_blank_description)
  have joined: "concat [join_lines three_lines] = join_lines three_lines @ []"
    by simp
  have tail: "[] = [] \<or> [] = [newline]"
    by simp
  have "transactions
     (handleFileChange json_parse same_tick (Some statement_pdf)
        \<lparr>chunks = [join_lines three_lines], thrown = None\<rparr> fresh_app) =
     assign_ids same_tick 0 (accepted_records json_parse three_lines)"
    by (rule stream_of_lines [OF pdf_type clean joined tail])
  moreover have "filter (passes_guard json_parse) three_lines = [coffee_line, salary_line]"
    by (simp add: three_lines_def passes_coffee passes_salary blank_description_fails)
  ultimately have "length (transactions
     (handleFileChange json_parse same_tick (Some statement_pdf)
        \<lparr>chunks = [join_lines three_lines], thrown = None\<rparr> fresh_app)) = 2"
    by (simp add: accepted_records_filter)
  moreover have "length (claimed_store json_parse same_tick three_lines) = 3"
    by (simp add: claimed_store_def three_lines_def coffee_not_malformed salary_not_malformed
        blank_description_not_malformed)
  ultimately show ?thesis
    by auto
qed

section \<open>What the guard lets through\<close>

lemma guard_make_tx: "guard (make_tx r t n) = guard r"
  by (simp add: guard_def make_tx_def get_set_prop)

lemma guard_assign_ids: "list_all guard rs \<Longrightarrow> list_all guard (assign_ids now n rs)"
  by (induction rs arbitrary: n) (simp_all add: guard_make_tx)

lemma guard_accepted_records: "list_all guard (accepted_records parse ls)"
  by (simp add: list_all_iff accepted_records_guard)

lemma single_line:
  assumes "file_type f = ''application/pdf''" and "newline \<notin> set l"
  shows "transactions
           (handleFileChange parse now (Some f) \<lparr>chunks = [l @ [newline]], thrown = None\<rparr> a) =
         assign_ids now 0 (accepted_records parse [l])"
proof -
  have clean: "\<forall>x\<in>set [l]. newline \<notin> set x"
    using assms(2) by simp
  have joined: "concat [l @ [newline]] = join_lines [l] @ [newline]"
    by simp
  have tail: "[newline] = [] \<or> [newline] = [newline]"
    by simp
  show ?thesis
    by (rule stream_of_lines [OF assms(1) clean joined tail])
qed

lemma parse_transfer: "json_parse transfer_line = Some (JObj transfer_record)"
  by code_simp

lemma decode_transfer: "decode_line json_parse transfer_line = Inr transfer_record"
proof -
  have "trim transfer_line \<noteq> []" by code_simp
  moreover have "guard transfer_record" by code_simp
  ultimately show ?thesis by (simp add: decode_line_def parse_transfer)
qed

lemma clean_transfer: "newline \<notin> set transfer_line"
  by code_simp

lemma transfer_id: "assign_ids same_tick 0 [transfer_record] = [transfer_tx]"
  by code_simp

lemma transfer_result:
  "transactions
     (handleFileChange json_parse same_tick (Some statement_pdf)
        \<lparr>chunks = [transfer_line @ [newline]], thrown = None\<rparr> fresh_app) = [transfer_tx]"
  using single_line [OF pdf_type clean_transfer, of json_parse same_tick fresh_app]
  by (simp only: accepted_records_Cons decode_transfer accepted_records_Nil transfer_id
      sum.case append_Nil2)

lemma parse_extra: "json_parse extra_line = Some (JObj extra_record)"
  by code_simp

lemma decode_extra: "decode_line json_parse extra_line = Inr extra_record"
proof -
  have "trim extra_line \<noteq> []" by code_simp
  moreover have "guard extra_record" by code_simp
  ultimately show ?thesis by (simp add: decode_line_def parse_extra)
qed

lemma clean_extra: "newline \<notin> set extra_line"
  by code_simp

lemma extra_id: "make_tx extra_record (same_tick 0) 0 = extra_tx"
  by code_simp

lemma parse_empty_date: "json_parse empty_date_line = Some (JObj empty_date_record)"
  by code_simp

lemma keys_make_tx: "set (map fst (make_tx r t n)) = set (map fst r) \<union> {''id'', ''category''}"
  by (simp only: make_tx_def keys_set_prop) auto

lemma get_prop_make_tx:
  "k \<noteq> ''id'' \<Longrightarrow> k \<noteq> ''category'' \<Longrightarrow> get_prop (make_tx r t n) k = get_prop r k"
  by (simp add: make_tx_def get_set_prop)

lemma guard_extra_key:
  "k \<noteq> ''date'' \<Longrightarrow> k \<noteq> ''description'' \<Longrightarrow> k \<noteq> ''amount'' \<Longrightarrow> k \<noteq> ''type'' \<Longrightarrow>
   guard (set_prop r k v) = guard r"
  by (simp add: guard_def get_set_prop)

text \<open>The guard does not look at the type of the date or of the description.\<close>

lemma decode_untyped: "decode_line json_parse untyped_line = Inr untyped_record"
proof -
  have "json_parse untyped_line = Some (JObj untyped_record)" by code_simp
  moreover have "trim untyped_line \<noteq> []" by code_simp
  moreover have "guard untyped_record" by code_simp
  ultimately show ?thesis by (simp add: decode_line_def)
qed

section \<open>Shape of the stored transactions\<close>

text \<open>
  Claim C7, as the code has it. Every transaction an ingestion stores has an amount of type
  number and a truthy date, description and type, and the decoder accepts a line only if the
  parsed object passes that test. Nothing makes the date or the description a string, or the
  type one of the two tags.
\<close>

theorem stored_records_pass_guard:
  assumes "file_type f = ''application/pdf''"
  shows "list_all
           (\<lambda>t. truthy (get_prop t ''date'') \<and> truthy (get_prop t ''description'')
                \<and> is_number (get_prop t ''amount'') \<and> truthy (get_prop t ''type''))
           (transactions (handleFileChange parse now (Some f) resp a))
     \<and> (decode_line parse l = Inr r \<longrightarrow>
          truthy (get_prop r ''date'') \<and> truthy (get_prop r ''description'')
          \<and> is_number (get_prop r ''amount'') \<and> truthy (get_prop r ''type''))"
proof -
  obtain ls where "transactions (handleFileChange parse now (Some f) resp a) =
      assign_ids now 0 (accepted_records parse ls)"
    using ingest_transactions [OF assms] by blast
  then have "list_all guard (transactions (handleFileChange parse now (Some f) resp a))"
    by (simp add: guard_assign_ids guard_accepted_records)
  moreover have "decode_line parse l = Inr r \<longrightarrow> guard r"
    by (simp add: decode_line_guard)
  ultimately show ?thesis
    by (simp add: guard_def [abs_def])
qed

theorem stored_records_pass_guard_witness:
  "list_all
     (\<lambda>t. truthy (get_prop t ''date'') \<and> truthy (get_prop t ''description'')
          \<and> is_number (get_prop t ''amount'') \<and> truthy (get_prop t ''type''))
     (transactions
        (handleFileChange json_parse same_tick (Some statement_pdf)
           \<lparr>chunks = [transfer_line @ [newline]], thrown = None\<rparr> fresh_app))
   \<and> transactions
        (handleFileChange json_parse same_tick (Some statement_pdf)
           \<lparr>chunks = [transfer_line @ [newline]], thrown = None\<rparr> fresh_app) = [transfer_tx]
   \<and> decode_line json_parse transfer_line = Inr transfer_record
   \<and> truthy (get_prop transfer_record ''type'')
   \<and> is_number (get_prop transfer_record ''amount'')"
proof -
  note inst = stored_records_pass_guard [OF pdf_type, of json_parse same_tick
      "\<lparr>chunks = [transfer_line @ [newline]], thrown = None\<rparr>" fresh_app
      transfer_line transfer_record]
  have stored: "list_all
     (\<lambda>t. truthy (get_prop t ''date'') \<and> truthy (get_prop t ''description'')
          \<and> is_number (get_prop t ''amount'') \<and> truthy (get_prop t ''type''))
     (transactions
        (handleFileChange json_parse same_tick (Some statement_pdf)
           \<lparr>chunks = [transfer_line @ [newline]], thrown = None\<rparr> fresh_app))"
    by (rule conjunct1 [OF inst])
  have "truthy (get_prop transfer_record ''date'') \<and> truthy (get_prop transfer_record ''description'')
          \<and> is_number (get_prop transfer_record ''amount'') \<and> truthy (get_prop transfer_record ''type'')"
    by (rule mp [OF conjunct2 [OF inst] decode_transfer])
  then have "truthy (get_prop transfer_record ''type'')"
    and "is_number (get_prop transfer_record ''amount'')"
    by blast+
  then show ?thesis
    using stored transfer_result decode_transfer by (intro conjI)
qed

text \<open>Claim C7 as stated fails: a line whose type is \<^verbatim>\<open>"transfer"\<close> is stored.\<close>

theorem type_tag_counterexample:
  "\<not> list_all well_shaped
       (transactions
          (handleFileChange json_parse same_tick (Some statement_pdf)
             \<lparr>chunks = [transfer_line @ [newline]], thrown = None\<rparr> fresh_app))"
proof -
  have shape: "\<not> list_all well_shaped [transfer_tx]"
    by code_simp
  show ?thesis
    unfolding transfer_result by (rule shape)
qed

section \<open>Extra keys of the wire record\<close>

text \<open>
  Claim C9, as the code has it. A record with extra keys is accepted, and the stored
  transaction is the wire record with \<^verbatim>\<open>id\<close> and \<^verbatim>\<open>category\<close> written over it: every other key
  of the wire record is carried into the store with its value.
\<close>

theorem extra_keys_carried:
  assumes "file_type f = ''application/pdf''" and "decode_line parse l = Inr r"
    and "newline \<notin> set l"
  shows "transactions
           (handleFileChange parse now (Some f) \<lparr>chunks = [l @ [newline]], thrown = None\<rparr> a) =
         [make_tx r (now 0) 0]
     \<and> set (map fst (make_tx r (now 0) 0)) = set (map fst r) \<union> {''id'', ''category''}
     \<and> (\<forall>k. k \<noteq> ''id'' \<and> k \<noteq> ''category'' \<longrightarrow>
            get_prop (make_tx r (now 0) 0) k = get_prop r k)
     \<and> get_prop (make_tx r (now 0) 0) ''id'' = JStr (make_id (now 0) 0)
     \<and> get_prop (make_tx r (now 0) 0) ''category'' = JStr ''Uncategorized''
     \<and> (\<forall>k v. k \<noteq> ''date'' \<and> k \<noteq> ''description'' \<and> k \<noteq> ''amount'' \<and> k \<noteq> ''type'' \<longrightarrow>
            check_record (JObj (set_prop r k v)) = Inr (set_prop r k v))"
proof -
  have stored: "transactions
           (handleFileChange parse now (Some f) \<lparr>chunks = [l @ [newline]], thrown = None\<rparr> a) =
         [make_tx r (now 0) 0]"
    using single_line [OF assms(1) assms(3), of parse now a] assms(2)
    by (simp add: accepted_records_Cons)
  have "guard r"
    using assms(2) by (rule decode_line_guard)
  then have extra: "\<forall>k v. k \<noteq> ''date'' \<and> k \<noteq> ''description'' \<and> k \<noteq> ''amount'' \<and> k \<noteq> ''type'' \<longrightarrow>
            check_record (JObj (set_prop r k v)) = Inr (set_prop r k v)"
    by (simp add: guard_extra_key)
  have others: "\<forall>k. k \<noteq> ''id'' \<and> k \<noteq> ''category'' \<longrightarrow>
            get_prop (make_tx r (now 0) 0) k = get_prop r k"
    by (simp add: get_prop_make_tx)
  have assigned: "get_prop (make_tx r (now 0) 0) ''id'' = JStr (make_id (now 0) 0)"
    and default: "get_prop (make_tx r (now 0) 0) ''category'' = JStr ''Uncategorized''"
    by (simp_all add: make_tx_def get_set_prop)
  show ?thesis
    using stored keys_make_tx [of r "now 0" 0] others assigned default extra
    by (intro conjI)
qed

theorem extra_keys_carried_witness:
  "transactions
     (handleFileChange json_parse same_tick (Some statement_pdf)
        \<lparr>chunks = [extra_line @ [newline]], thrown = None\<rparr> fresh_app) = [extra_tx]
   \<and> decode_line json_parse extra_line = Inr extra_record
   \<and> get_prop extra_tx ''balance'' = JNum (Finite 40)
   \<and> get_prop extra_record ''balance'' = JNum (Finite 40)"
proof -
  note inst = extra_keys_carried [OF pdf_type decode_extra clean_extra, of same_tick fresh_app]
  have "transactions
     (handleFileChange json_parse same_tick (Some statement_pdf)
        \<lparr>chunks = [extra_line @ [newline]], thrown = None\<rparr> fresh_app) =
     [make_tx extra_record (same_tick 0) 0]"
    by (rule conjunct1 [OF inst])
  then have stored: "transactions
     (handleFileChange json_parse same_tick (Some statement_pdf)
        \<lparr>chunks = [extra_line @ [newline]], thrown = None\<rparr> fresh_app) = [extra_tx]"
    by (simp only: extra_id)
  have "\<forall>k. k \<noteq> ''id'' \<and> k \<noteq> ''category'' \<longrightarrow>
            get_prop (make_tx extra_record (same_tick 0) 0) k = get_prop extra_record k"
    by (rule conjunct1 [OF conjunct2 [OF conjunct2 [OF inst]]])
  then have "get_prop (make_tx extra_record (same_tick 0) 0) ''balance'' =
       get_prop extra_record ''balance''"
    by simp
  moreover have wire: "get_prop extra_record ''balance'' = JNum (Finite 40)"
    by code_simp
  ultimately have "get_prop extra_tx ''balance'' = JNum (Finite 40)"
    by (simp only: extra_id)
  then show ?thesis
    using stored decode_extra wire by (intro conjI)
qed

text \<open>Claim C9 as stated fails: the extra key \<^verbatim>\<open>balance\<close> of the wire record is stored.\<close>

theorem extra_field_counterexample:
  "\<not> list_all only_documented
       (transactions
          (handleFileChange json_parse same_tick (Some statement_pdf)
             \<lparr>chunks = [extra_line @ [newline]], thrown = None\<rparr> fresh_app))"
proof -
  have stored: "transactions
     (handleFileChange json_parse same_tick (Some statement_pdf)
        \<lparr>chunks = [extra_line @ [newline]], thrown = None\<rparr> fresh_app) = [extra_tx]"
    using single_line [OF pdf_type clean_extra, of json_parse same_tick fresh_app]
    by (simp add: accepted_records_Cons decode_extra extra_id)
  have fields: "\<not> list_all only_documented [extra_tx]"
    by code_simp
  show ?thesis
    unfolding stored by (rule fields)
qed

section \<open>Empty and falsy fields\<close>

text \<open>
  Claim C10. A line that parses to a record whose date or description is the empty string,
  or whose type is falsy, is rejected; an accepted record has a truthy date, description and
  type.
\<close>

theorem falsy_fields_rejected:
  "(parse l = Some (JObj r)
      \<and> (get_prop r ''date'' = JStr [] \<or> get_prop r ''description'' = JStr []
          \<or> \<not> truthy (get_prop r ''type''))
      \<longrightarrow> isl (decode_line parse l))
   \<and> (decode_line parse l = Inr r \<longrightarrow>
        truthy (get_prop r ''date'') \<and> truthy (get_prop r ''description'')
        \<and> truthy (get_prop r ''type''))"
proof (intro conjI impI)
  assume "parse l = Some (JObj r)
      \<and> (get_prop r ''date'' = JStr [] \<or> get_prop r ''description'' = JStr []
          \<or> \<not> truthy (get_prop r ''type''))"
  then show "isl (decode_line parse l)"
    by (auto simp: decode_line_def guard_def)
next
  assume "decode_line parse l = Inr r"
  then have "guard r" by (rule decode_line_guard)
  then show "truthy (get_prop r ''date'')" and "truthy (get_prop r ''description'')"
    and "truthy (get_prop r ''type'')"
    by (simp_all add: guard_def)
qed

theorem falsy_fields_rejected_witness:
  "isl (decode_line json_parse empty_date_line)
   \<and> json_parse empty_date_line = Some (JObj empty_date_record)
   \<and> get_prop empty_date_record ''date'' = JStr []
   \<and> well_shaped empty_date_record
   \<and> decode_line json_parse empty_date_line = Inl GuardFailed
   \<and> truthy (get_prop coffee_record ''date'')"
proof -
  have empty: "get_prop empty_date_record ''date'' = JStr []"
    by code_simp
  have shaped: "well_shaped empty_date_record"
    by code_simp
  have hyp: "json_parse empty_date_line = Some (JObj empty_date_record)
      \<and> (get_prop empty_date_record ''date'' = JStr []
          \<or> get_prop empty_date_record ''description'' = JStr []
          \<or> \<not> truthy (get_prop empty_date_record ''type''))"
    using parse_empty_date empty by simp
  have rejected: "isl (decode_line json_parse empty_date_line)"
    by (rule mp [OF conjunct1 [OF falsy_fields_rejected [of json_parse empty_date_line
        empty_date_record]] hyp])
  have nonblank: "trim empty_date_line \<noteq> []"
    by code_simp
  have "\<not> guard empty_date_record"
    by code_simp
  then have reason: "decode_line json_parse empty_date_line = Inl GuardFailed"
    using nonblank by (simp add: decode_line_def parse_empty_date)
  have "truthy (get_prop coffee_record ''date'') \<and> truthy (get_prop coffee_record ''description'')
        \<and> truthy (get_prop coffee_record ''type'')"
    by (rule mp [OF conjunct2 [OF falsy_fields_rejected [of json_parse coffee_line
        coffee_record]] decode_coffee])
  then have accepted: "truthy (get_prop coffee_record ''date'')"
    by (rule conjunct1)
  show ?thesis
    using rejected parse_empty_date empty shaped reason accepted by (intro conjI)
qed

section \<open>End-of-stream flush\<close>

text \<open>First revision: the residual buffer is decoded once, after every complete line, and its
  record, if accepted, is the last of the store.\<close>

lemma final_record_kept:
  assumes "file_type f = ''application/pdf''"
  shows "transactions (handleFileChange parse now (Some f) \<lparr>chunks = cs, thrown = None\<rparr> a) =
     assign_ids now 0 (accepted_records parse (butlast (split_nl (concat cs)))) @
     assign_ids now (length (accepted_records parse (butlast (split_nl (concat cs)))))
       (accepted_records parse [last (split_nl (concat cs))])"
proof -
  have "butlast (split_nl (concat cs)) @ [last (split_nl (concat cs))] = split_nl (concat cs)"
    by simp
  then have "accepted_records parse (split_nl (concat cs)) =
        accepted_records parse (butlast (split_nl (concat cs))) @
        accepted_records parse [last (split_nl (concat cs))]"
    by (metis accepted_records_append)
  then show ?thesis
    by (simp add: ingest_done [OF assms] assign_ids_append)
qed

lemma unterminated_line_kept:
  assumes "file_type f = ''application/pdf''" and "newline \<notin> set l"
    and "decode_line parse l = Inr r"
  shows "transactions (handleFileChange parse now (Some f) \<lparr>chunks = [l], thrown = None\<rparr> a) =
     [make_tx r (now 0) 0]"
  using assms by (simp add: ingest_done split_nl_clean accepted_records_Cons)

text \<open>Third revision: a text with no newline never leaves the buffer.\<close>

lemma on_chunk_rev3_no_newline:
  "newline \<notin> set (buffer st) \<Longrightarrow> newline \<notin> set c \<Longrightarrow>
   on_chunk_rev3 parse now lookup_note st c = st\<lparr>buffer := buffer st @ c\<rparr>"
  by (simp add: on_chunk_rev3_def split_nl_clean pop_def or_empty_def)

lemma feed_rev3_no_newline:
  "newline \<notin> set (buffer st) \<Longrightarrow> newline \<notin> set (concat cs) \<Longrightarrow>
   foldl (on_chunk_rev3 parse now lookup_note) st cs = st\<lparr>buffer := buffer st @ concat cs\<rparr>"
  by (induction cs arbitrary: st) (simp_all add: on_chunk_rev3_no_newline)

lemma rev3_unterminated_dropped:
  assumes "file_type f = ''application/pdf''" and "newline \<notin> set (concat cs)"
  shows "transactions
           (handleFileChange_rev3 parse now lookup_note (Some f)
              \<lparr>chunks = cs, thrown = None\<rparr> a) = []"
  using assms by (simp add: handleFileChange_rev3_def feed_rev3_no_newline Let_def)

text \<open>
  Claim C4 on the third revision: a stream that ends without a newline after its only
  record, a valid one, leaves the store empty, where the first revision stores the record.
\<close>

theorem rev3_drops_final_record:
  "transactions
     (handleFileChange_rev3 json_parse same_tick no_saved_note (Some statement_pdf)
        \<lparr>chunks = [coffee_line], thrown = None\<rparr> fresh_app) = []
   \<and> transactions
     (handleFileChange json_parse same_tick (Some statement_pdf)
        \<lparr>chunks = [coffee_line], thrown = None\<rparr> fresh_app) = [coffee_tx]
   \<and> decode_line json_parse coffee_line = Inr coffee_record"
proof -
  have clean: "newline \<notin> set (concat [coffee_line])"
    using clean_coffee by simp
  have dropped: "transactions
     (handleFileChange_rev3 json_parse same_tick no_saved_note (Some statement_pdf)
        \<lparr>chunks = [coffee_line], thrown = None\<rparr> fresh_app) = []"
    by (rule rev3_unterminated_dropped [OF pdf_type clean])
  have "make_tx coffee_record (same_tick 0) 0 = coffee_tx"
    by code_simp
  then have kept: "transactions
     (handleFileChange json_parse same_tick (Some statement_pdf)
        \<lparr>chunks = [coffee_line], thrown = None\<rparr> fresh_app) = [coffee_tx]"
    using unterminated_line_kept [OF pdf_type clean_coffee decode_coffee, of same_tick fresh_app]
    by simp
  show ?thesis
    using dropped kept decode_coffee by (intro conjI)
qed

section \<open>Failure of the collaborator\<close>

text \<open>First revision: the store keeps exactly what the chunks before the failure appended,
  and the error screen is the only screen mounted.\<close>

lemma failure_keeps_store:
  assumes "file_type f = ''application/pdf''"
  shows "transactions (handleFileChange parse now (Some f) \<lparr>chunks = cs, thrown = Some e\<rparr> a) =
     transactions (ui (foldl (on_chunk parse now)
        \<lparr>buffer = [], transactionCount = 0,
          ui = a\<lparr>appState := Analyzing, transactions := [], errorMessage := [],
                 isStreaming := True\<rparr>\<rparr> cs))"
  using assms by (simp add: handleFileChange_def Let_def)

lemma failure_hides_table:
  assumes "file_type f = ''application/pdf''"
  shows "render (handleFileChange parse now (Some f) \<lparr>chunks = cs, thrown = Some e\<rparr> a) =
     [ErrorScreen (failure_message e)]"
  by (simp add: ingest_failed [OF assms] render_def)

text \<open>
  Claim C6 on the first revision: after a failure of the collaborator the store still holds
  the record read before it, but the screen shows the error message alone, not the table;
  the revision of \<^verbatim>\<open>part_002\<close> shows the table.
\<close>

theorem failure_replaces_table:
  "render (handleFileChange json_parse same_tick (Some statement_pdf) quota_failure fresh_app) =
     [ErrorScreen ''Failed to analyze statement. quota exceeded'']
   \<and> transactions
       (handleFileChange json_parse same_tick (Some statement_pdf) quota_failure fresh_app) =
     [coffee_tx]
   \<and> render_part2
       (handleFileChange json_parse same_tick (Some statement_pdf) quota_failure fresh_app) =
     [AnalysisScreen]"
proof -
  have lines: "butlast (split_nl (concat [coffee_line @ [newline]])) = [coffee_line]"
    using split_nl_line [OF clean_coffee, of "[]"] by (simp add: split_nl_def [of "[]"])
  have ids: "assign_ids same_tick 0 [coffee_record] = [coffee_tx]"
    by code_simp
  have state: "handleFileChange json_parse same_tick (Some statement_pdf) quota_failure fresh_app =
     fresh_app\<lparr>appState := Error,
                errorMessage := failure_message (ErrorObject ''quota exceeded''),
                isStreaming := False, transactions := [coffee_tx]\<rparr>"
    unfolding quota_failure_def
    by (simp only: ingest_failed [OF pdf_type] lines accepted_records_Cons decode_coffee
        accepted_records_Nil sum.case append_Nil2 ids)
  show ?thesis
    unfolding state by (simp add: render_def render_part2_def failure_message_def)
qed

section \<open>Renaming and deleting a category\<close>

text \<open>First revision: a rename that passes its checks, and a delete, rewrite the transactions
  that carry the old name.\<close>

lemma recategorize_hits:
  "list_all (\<lambda>t. get_prop t ''category'' = old) txs \<Longrightarrow>
   list_all (\<lambda>t. get_prop t ''category'' = JStr new) (recategorize old new txs)"
  by (induction txs) (simp_all add: recategorize_def get_set_prop)

lemma rename_rewrites:
  assumes "find_category (categories a) cid = Some c"
    and "trim (editingCategoryName a) \<noteq> []"
    and "\<not> list_ex (\<lambda>c. toLowerCase (cat_name c) = toLowerCase (trim (editingCategoryName a))
                         \<and> cat_id c \<noteq> cid) (categories a)"
  shows "transactions (handleSaveCategory cid a) =
     recategorize (JStr (cat_name c)) (trim (editingCategoryName a)) (transactions a)"
  using assms by (simp add: handleSaveCategory_def handleCancelEditing_def Let_def)

lemma delete_rewrites:
  assumes "find_category (categories a) cid = Some c"
  shows "transactions (handleDeleteCategory cid a) =
     recategorize (JStr (cat_name c)) ''Uncategorized'' (transactions a)"
  using assms by (simp add: handleDeleteCategory_def Let_def)

text \<open>Third revision: a delete rewrites them, a rename does not touch them.\<close>

lemma delete_rewrites_rev3:
  assumes "find_category (categories a) cid = Some c"
  shows "transactions (handleDeleteCategory_rev3 cid a) =
     recategorize (JStr (cat_name c)) ''Uncategorized'' (transactions a)"
  using assms by (simp add: handleDeleteCategory_rev3_def)

lemma rename_rev3_keeps_transactions:
  "transactions (handleSaveCategory_rev3 cid a) = transactions a"
  by (simp add: handleSaveCategory_rev3_def)

text \<open>
  Claim C8 on the third revision: renaming Groceries to Food renames the category and
  leaves the transaction reading Groceries, and deleting Food afterwards leaves it reading
  Groceries still; the first revision gives Food and then Uncategorized.
\<close>

theorem rev3_rename_leaves_old_name:
  "map tx_category (transactions grocery_app) = [JStr ''Groceries'']
   \<and> map tx_category (transactions (handleSaveCategory_rev3 ''1'' grocery_app)) =
       [JStr ''Groceries'']
   \<and> map cat_name (categories (handleSaveCategory_rev3 ''1'' grocery_app)) =
       [''Food'', ''Utilities'', ''Rent'', ''Entertainment'']
   \<and> map tx_category
       (transactions
          (handleDeleteCategory_rev3 ''1'' (handleSaveCategory_rev3 ''1'' grocery_app))) =
       [JStr ''Groceries'']
   \<and> map tx_category (transactions (handleSaveCategory ''1'' grocery_app)) = [JStr ''Food'']
   \<and> map tx_category
       (transactions (handleDeleteCategory ''1'' (handleSaveCategory ''1'' grocery_app))) =
       [JStr ''Uncategorized'']"
  by code_simp

end
